theory Spec2Isabelle
  imports Complex_Main
begin

section \<open>Numbers, the random source and the clock\<close>

text \<open>
  The response fabricators of \<^verbatim>\<open>services/mockData.js\<close> compute with JavaScript numbers,
  which are IEEE-754 binary64 values. Values that the code produces with \<^verbatim>\<open>Math.floor\<close> or
  \<^verbatim>\<open>Math.round\<close>, and the integer literals of the tables, are integers here.

  The credit, micro-loan and greenwashing fabricators are modelled over the reals: a
  literal denotes the decimal fraction as it is written and \<open>+\<close>, \<open>-\<close>, \<open>*\<close>, \<open>/\<close> are
  exact (\<^verbatim>\<open>Math.pow\<close> has no rounding that the language fixes). The portfolio fabricator
  is modelled in binary64 arithmetic, given below: its table literals are the doubles
  nearest to the decimal fractions written, and every arithmetic operation rounds its
  exact result to the nearest double. \<^verbatim>\<open>NaN\<close>, the infinities and overflow are outside
  the model.

  \<^verbatim>\<open>Math.random()\<close> is the only source of randomness. A fabricator calls it a fixed number
  of times, in a fixed order; \<open>rnd k\<close> is the value returned by call number \<open>k\<close>
  (counted from 0) of one invocation.
\<close>

type_synonym rng = "nat \<Rightarrow> real"

text \<open>A mocked sequence of draws, for concrete runs: the listed values, then zeros.\<close>

definition draws :: "real list \<Rightarrow> rng" where
  "draws xs k = (if k < length xs then xs ! k else 0)"

text \<open>\<^verbatim>\<open>const randomBetween = (min, max) => Math.random() * (max - min) + min\<close>, with the
  value \<open>u\<close> of \<^verbatim>\<open>Math.random()\<close> as first argument.\<close>

definition randomBetween :: "real \<Rightarrow> real \<Rightarrow> real \<Rightarrow> real" where
  "randomBetween u lo hi = u * (hi - lo) + lo"

text \<open>\<^verbatim>\<open>const randomInt = (min, max) => Math.floor(randomBetween(min, max))\<close>\<close>

definition randomInt :: "real \<Rightarrow> real \<Rightarrow> real \<Rightarrow> int" where
  "randomInt u lo hi = \<lfloor>randomBetween u lo hi\<rfloor>"

text \<open>\<^verbatim>\<open>Math.round\<close>: the nearest integer, a tie going up.\<close>

definition Math_round :: "real \<Rightarrow> int" where
  "Math_round x = \<lfloor>x + 1 / 2\<rfloor>"

text \<open>
  \<^verbatim>\<open>new Date()\<close> reads the system clock. The two renderings the fabricators return are
  taken as given: the ISO timestamp of the call, and the ISO date 30 days later
  (\<^verbatim>\<open>setDate(getDate() + 30)\<close>, then \<^verbatim>\<open>toISOString().split('T')[0]\<close>).
\<close>

record clock =
  isoNow :: string
  isoDateIn30Days :: string

datatype js_error = TypeError

section \<open>Binary64 arithmetic\<close>

text \<open>The number of binary digits of a positive integer (0 for the others).\<close>

function bit_length :: "int \<Rightarrow> int" where
  "bit_length n = (if n \<le> 0 then 0 else 1 + bit_length (n div 2))"
  by pat_completeness auto
termination
  by (relation "measure nat") auto

declare bit_length.simps [simp del]

text \<open>For \<open>x > 0\<close>, the integer \<open>e\<close> with \<open>2^e \<le> x < 2^(e+1)\<close>: one less than the number
  of digits of \<open>\<lfloor>x\<rfloor>\<close> from 1 on, and below 1 the negated number of digits of
  \<open>\<lceil>1/x\<rceil> - 1\<close>.\<close>

definition exponent :: "real \<Rightarrow> int" where
  "exponent x = (if 1 \<le> x then bit_length \<lfloor>x\<rfloor> - 1 else - bit_length (\<lceil>1 / x\<rceil> - 1))"

definition pow2 :: "int \<Rightarrow> real" where
  "pow2 e = (if 0 \<le> e then 2 ^ nat e else 1 / 2 ^ nat (- e))"

text \<open>The nearest integer, a tie going to the even one.\<close>

definition round_half_even :: "real \<Rightarrow> int" where
  "round_half_even y =
    (let n = \<lfloor>y\<rfloor>; r = y - real_of_int n
     in if r < 1 / 2 then n else if 1 / 2 < r then n + 1 else if even n then n else n + 1)"

text \<open>
  The double nearest to a real, a tie going to the even significand (the rounding mode
  of JavaScript). A double with exponent \<open>e\<close> is a multiple of \<open>2^(e - 52)\<close>, its 53-bit
  significand; below \<open>2^(-1022)\<close> the doubles are the multiples of \<open>2^(-1074)\<close>.
\<close>

definition binary64 :: "real \<Rightarrow> real" where
  "binary64 x =
    (if x = 0 then 0
     else let q = pow2 (max (exponent \<bar>x\<bar>) (- 1022) - 52)
          in real_of_int (round_half_even (x / q)) * q)"

text \<open>The operators \<^verbatim>\<open>+\<close>, \<^verbatim>\<open>-\<close>, \<^verbatim>\<open>*\<close> and \<^verbatim>\<open>/\<close> on doubles: the exact result, rounded.\<close>

definition add64 :: "real \<Rightarrow> real \<Rightarrow> real" where
  "add64 x y = binary64 (x + y)"

definition sub64 :: "real \<Rightarrow> real \<Rightarrow> real" where
  "sub64 x y = binary64 (x - y)"

definition mul64 :: "real \<Rightarrow> real \<Rightarrow> real" where
  "mul64 x y = binary64 (x * y)"

definition div64 :: "real \<Rightarrow> real \<Rightarrow> real" where
  "div64 x y = binary64 (x / y)"

section \<open>Credit assessment\<close>

record traditional_risk =
  risk_score :: real
  revenue_assessment :: string
  profitability_assessment :: string
  leverage_assessment :: string
  liquidity_assessment :: string
  default_history :: string

record carbon_risk =
  carbon_risk_score :: real
  emission_intensity :: string
  trend_direction :: string
  transition_readiness :: string
  regulatory_risk :: string
  stranded_asset_risk :: string

record esg_risk =
  esg_risk_score :: real
  environmental_rating :: string
  social_rating :: string
  governance_rating :: string
  sdg_aligned_count :: int
  reputational_risk :: string

record risk_analysis =
  traditional_risk :: traditional_risk
  carbon_risk :: carbon_risk
  esg_risk :: esg_risk
  composite_risk_score :: real
  credit_score :: int
  risk_category :: string

text \<open>The fields \<^verbatim>\<open>carbon_score\<close> of \<^verbatim>\<open>credit_rating\<close> and of the response itself are two
  fields of one name; the second is \<open>ca_carbon_score\<close> here. The prefix \<open>ca_\<close> also
  marks the response's \<^verbatim>\<open>timestamp\<close>, \<^verbatim>\<open>recommendations\<close> and \<^verbatim>\<open>status\<close>, names
  that every response has.\<close>

record credit_rating =
  rating :: string
  combined_score :: real
  traditional_score :: real
  carbon_score :: real
  interest_rate_adjustment :: real

record credit_assessment =
  entity_id :: string
  ca_timestamp :: string
  ca_carbon_score :: real
  risk_analysis :: risk_analysis
  credit_rating :: credit_rating
  ca_recommendations :: "string list"
  ca_status :: string

definition mockCreditAssessment ::
  "clock \<Rightarrow> rng \<Rightarrow> string \<Rightarrow> string \<Rightarrow> credit_assessment" where
  "mockCreditAssessment clk rnd entityId entityType =
    (let traditionalScore = randomBetween (rnd 0) 45 95;
         carbonScore = randomBetween (rnd 1) 40 92;
         esgScore = randomBetween (rnd 2) 50 90;
         combinedScore = traditionalScore * 0.6 + carbonScore * 0.4;
         (rating, interestAdj) =
           (if combinedScore \<ge> 80 then (''AAA'', - 0.02)
            else if combinedScore \<ge> 70 then (''AA'', - 0.01)
            else if combinedScore \<ge> 60 then (''A'', 0)
            else if combinedScore \<ge> 50 then (''BBB'', 0.01)
            else (''BB'', 0.02));
         emissions = randomInt (rnd 3) 500 4000;
         trend = randomBetween (rnd 4) (- 0.15) 0.1;
         renewablePct = randomInt (rnd 5) 10 75
     in \<lparr> entity_id = entityId,
          ca_timestamp = isoNow clk,
          ca_carbon_score = real_of_int (Math_round (carbonScore * 100)) / 100,
          risk_analysis = \<lparr>
            traditional_risk = \<lparr>
              risk_score = real_of_int (Math_round (traditionalScore * 100)) / 100,
              revenue_assessment = (if traditionalScore > 70 then ''strong'' else ''moderate''),
              profitability_assessment = (if traditionalScore > 65 then ''strong'' else ''moderate''),
              leverage_assessment = (if randomBetween (rnd 6) 0 1 > 0.5 then ''low'' else ''moderate''),
              liquidity_assessment = (if traditionalScore > 60 then ''strong'' else ''moderate''),
              default_history = (if randomBetween (rnd 7) 0 1 > 0.8 then ''concerning'' else ''clean'') \<rparr>,
            carbon_risk = \<lparr>
              carbon_risk_score = real_of_int (Math_round (carbonScore * 100)) / 100,
              emission_intensity = (if emissions > 2000 then ''high'' else ''moderate''),
              trend_direction = (if trend < 0 then ''improving'' else ''worsening''),
              transition_readiness = (if renewablePct > 50 then ''strong'' else ''developing''),
              regulatory_risk =
                (if emissions > 3000 \<and> renewablePct < 30 then ''high''
                 else if renewablePct < 50 then ''moderate'' else ''low''),
              stranded_asset_risk = (if renewablePct < 20 then ''high'' else ''low'') \<rparr>,
            esg_risk = \<lparr>
              esg_risk_score = real_of_int (Math_round (esgScore * 100)) / 100,
              environmental_rating =
                (if esgScore > 80 then ''excellent'' else if esgScore > 70 then ''good'' else ''fair''),
              social_rating = (if esgScore > 75 then ''good'' else ''fair''),
              governance_rating = (if esgScore > 70 then ''good'' else ''fair''),
              sdg_aligned_count = randomInt (rnd 8) 2 4,
              reputational_risk = (if esgScore > 70 then ''low'' else ''moderate'') \<rparr>,
            composite_risk_score = real_of_int (Math_round (combinedScore * 100)) / 100,
            credit_score = Math_round (300 + (combinedScore / 100) * 550),
            risk_category =
              (if combinedScore \<ge> 80 then ''low_risk''
               else if combinedScore \<ge> 60 then ''moderate_risk'' else ''elevated_risk'') \<rparr>,
          credit_rating = \<lparr>
            rating = rating,
            combined_score = real_of_int (Math_round (combinedScore * 100)) / 100,
            traditional_score = real_of_int (Math_round (traditionalScore * 100)) / 100,
            carbon_score = real_of_int (Math_round (carbonScore * 100)) / 100,
            interest_rate_adjustment = interestAdj \<rparr>,
          ca_recommendations =
            (if carbonScore < 60 then
               [''Consider implementing renewable energy sources to improve carbon score'',
                ''Develop a carbon reduction roadmap to access better financing terms'',
                ''Improve ESG reporting transparency to enhance investor confidence'']
             else
               [''Maintain current sustainability initiatives'',
                ''Consider carbon offset programs for remaining emissions'']),
          ca_status = ''success'' \<rparr>)"

section \<open>Micro-loan\<close>

record assessment =
  applicant_id :: string
  alternative_credit_score :: real
  mobile_payment_score :: real
  green_activity_score :: real
  social_score :: real
  approved :: bool
  confidence_level :: real
  assessment_method :: string

record loan_terms =
  approved_amount :: real
  interest_rate :: real
  loan_term_months :: nat
  monthly_payment :: real
  total_repayment :: real
  total_interest :: real
  first_payment_date :: string
  special_terms :: "string list"

text \<open>A JavaScript object may lack a property, so the response holds its loan terms as an
  option: \<open>None\<close> is a response without the property \<^verbatim>\<open>loan_terms\<close>. The prefix \<open>ml_\<close>
  marks the response's own \<^verbatim>\<open>applicant_id\<close>, \<^verbatim>\<open>timestamp\<close> and \<^verbatim>\<open>status\<close>.\<close>

record loan_decision =
  ml_applicant_id :: string
  ml_timestamp :: string
  assessment :: assessment
  loan_terms :: "loan_terms option"
  approval_status :: bool
  ml_status :: string

text \<open>The local values of \<^verbatim>\<open>mockMicroLoan\<close> between the score draws and the response
  (lines 192 to 203), as functions of the composite score and the requested amount.\<close>

record loan_calc =
  interestRate :: real
  maxAmount :: real
  approvedAmount :: real
  termMonths :: nat
  monthlyRate :: real
  monthlyPayment :: real
  totalRepayment :: real

definition loan_calc :: "real \<Rightarrow> real \<Rightarrow> loan_calc" where
  "loan_calc compositeScore amount =
    (let (interestRate, maxAmount) =
           (if compositeScore \<ge> 80 then (0.06, amount * 1.2)
            else if compositeScore \<ge> 65 then (0.08, amount)
            else if compositeScore \<ge> 55 then (0.10, amount * 0.8)
            else (0.12, amount * 0.5));
         approvedAmount = min amount maxAmount;
         termMonths = 24;
         monthlyRate = interestRate / 12;
         monthlyPayment =
           approvedAmount * (monthlyRate * (1 + monthlyRate) ^ termMonths)
             / ((1 + monthlyRate) ^ termMonths - 1);
         totalRepayment = monthlyPayment * real termMonths
     in \<lparr> interestRate = interestRate, maxAmount = maxAmount,
          approvedAmount = approvedAmount, termMonths = termMonths,
          monthlyRate = monthlyRate, monthlyPayment = monthlyPayment,
          totalRepayment = totalRepayment \<rparr>)"

definition mockMicroLoan ::
  "clock \<Rightarrow> rng \<Rightarrow> string \<Rightarrow> real \<Rightarrow> string \<Rightarrow> 'a \<Rightarrow> loan_decision" where
  "mockMicroLoan clk rnd applicantId amount purpose additionalData =
    (let mobileScore = randomBetween (rnd 0) 50 95;
         greenScore = randomBetween (rnd 1) 40 90;
         socialScore = randomBetween (rnd 2) 55 85;
         compositeScore = mobileScore * 0.5 + greenScore * 0.3 + socialScore * 0.2;
         approved = (compositeScore \<ge> 55);
         c = loan_calc compositeScore amount
     in \<lparr> ml_applicant_id = applicantId,
          ml_timestamp = isoNow clk,
          assessment = \<lparr>
            applicant_id = applicantId,
            alternative_credit_score = real_of_int (Math_round (compositeScore * 100)) / 100,
            mobile_payment_score = real_of_int (Math_round (mobileScore * 100)) / 100,
            green_activity_score = real_of_int (Math_round (greenScore * 100)) / 100,
            social_score = real_of_int (Math_round (socialScore * 100)) / 100,
            approved = approved,
            confidence_level =
              real_of_int (Math_round (randomBetween (rnd 3) 0.75 0.92 * 100)) / 100,
            assessment_method = ''alternative_data'' \<rparr>,
          loan_terms = Some \<lparr>
            approved_amount = real_of_int (Math_round (approvedAmount c * 100)) / 100,
            interest_rate = real_of_int (Math_round (interestRate c * 10000)) / 10000,
            loan_term_months = termMonths c,
            monthly_payment = real_of_int (Math_round (monthlyPayment c * 100)) / 100,
            total_repayment = real_of_int (Math_round (totalRepayment c * 100)) / 100,
            total_interest =
              real_of_int (Math_round ((totalRepayment c - approvedAmount c) * 100)) / 100,
            first_payment_date = isoDateIn30Days clk,
            special_terms =
              (if greenScore > 70 then
                 [''Green bonus: 0.5% interest rate reduction for maintaining solar generation'',
                  ''Carbon credit: Earn credits for verified emission reductions'',
                  ''Flexible repayment: Adjust payments based on seasonal income'',
                  ''Financial literacy: Free access to online financial education'']
               else
                 [''Flexible repayment: Adjust payments based on seasonal income'',
                  ''Financial literacy: Free access to online financial education'']) \<rparr>,
          approval_status = approved,
          ml_status = ''success'' \<rparr>)"

section \<open>Greenwashing check\<close>

text \<open>The field \<^verbatim>\<open>type\<close> of an anomaly is \<open>anomaly_type\<close> here; the prefix \<open>gw_\<close> marks
  the report's \<^verbatim>\<open>timestamp\<close>, \<^verbatim>\<open>recommendations\<close> and \<^verbatim>\<open>status\<close>.\<close>

record anomaly =
  anomaly_type :: string
  description :: string
  severity :: string

text \<open>The three rule checks (lines 250 to 278) update two locals, the list \<^verbatim>\<open>anomalies\<close> and
  the counter \<^verbatim>\<open>riskFactors\<close>; each check is a step on that pair.\<close>

type_synonym rule_state = "anomaly list \<times> int"

definition check_high_score_high_emissions :: "int \<Rightarrow> int \<Rightarrow> rule_state \<Rightarrow> rule_state" where
  "check_high_score_high_emissions envScore emissions s =
    (case s of (anomalies, riskFactors) \<Rightarrow>
      if envScore > 80 \<and> emissions > 3000 then
        (anomalies @ [\<lparr> anomaly_type = ''high_score_high_emissions'',
            description = ''Environmental score is high but emissions are substantial'',
            severity = ''medium'' \<rparr>],
         riskFactors + 2)
      else s)"

definition check_score_renewable_mismatch :: "int \<Rightarrow> int \<Rightarrow> rule_state \<Rightarrow> rule_state" where
  "check_score_renewable_mismatch envScore renewablePct s =
    (case s of (anomalies, riskFactors) \<Rightarrow>
      if envScore > 70 \<and> renewablePct < 20 then
        (anomalies @ [\<lparr> anomaly_type = ''score_renewable_mismatch'',
            description = ''High environmental score but low renewable energy usage'',
            severity = ''high'' \<rparr>],
         riskFactors + 3)
      else s)"

definition check_increasing_emissions_high_score :: "real \<Rightarrow> int \<Rightarrow> rule_state \<Rightarrow> rule_state" where
  "check_increasing_emissions_high_score trend envScore s =
    (case s of (anomalies, riskFactors) \<Rightarrow>
      if trend > 0.05 \<and> envScore > 75 then
        (anomalies @ [\<lparr> anomaly_type = ''increasing_emissions_high_score'',
            description = ''Emissions increasing while maintaining high environmental score'',
            severity = ''high'' \<rparr>],
         riskFactors + 3)
      else s)"

definition rule_checks :: "rng \<Rightarrow> rule_state" where
  "rule_checks rnd =
    (let envScore = randomInt (rnd 0) 50 95;
         emissions = randomInt (rnd 1) 500 4000;
         renewablePct = randomInt (rnd 2) 10 70;
         trend = randomBetween (rnd 3) (- 0.1) 0.1
     in check_increasing_emissions_high_score trend envScore
          (check_score_renewable_mismatch envScore renewablePct
            (check_high_score_high_emissions envScore emissions ([], 0))))"

record greenwashing_report =
  company_id :: string
  gw_timestamp :: string
  greenwashing_risk_index :: int
  risk_level :: string
  anomalies :: "anomaly list"
  anomaly_count :: nat
  gw_recommendations :: "string list"
  confidence :: real
  gw_status :: string

text \<open>The recommendations (lines 283 to 294): three independent tests of the index, each
  appending to the list.\<close>

definition recommendations_for :: "int \<Rightarrow> string list" where
  "recommendations_for riskIndex =
    (if riskIndex > 50 then
       [''Request third-party verification of carbon claims'',
        ''Conduct detailed supply chain emissions audit'']
     else [])
    @ (if riskIndex > 30 then [''Monitor emissions data more frequently''] else [])
    @ (if riskIndex \<le> 30 then
         [''Continue current monitoring practices'',
          ''Consider publishing detailed sustainability reports'']
       else [])"

definition mockGreenwashingCheck :: "clock \<Rightarrow> rng \<Rightarrow> string \<Rightarrow> greenwashing_report" where
  "mockGreenwashingCheck clk rnd companyId =
    (let (anomalies, riskFactors) = rule_checks rnd;
         riskIndex = min 100 (riskFactors * 15 + randomInt (rnd 4) 0 20);
         riskLevel = (if riskIndex > 60 then ''high''
                      else if riskIndex > 30 then ''moderate'' else ''low'');
         recommendations = recommendations_for riskIndex
     in \<lparr> company_id = companyId,
          gw_timestamp = isoNow clk,
          greenwashing_risk_index = riskIndex,
          risk_level = riskLevel,
          anomalies = anomalies,
          anomaly_count = length anomalies,
          gw_recommendations = recommendations,
          confidence = real_of_int (Math_round (randomBetween (rnd 5) 0.75 0.95 * 100)) / 100,
          gw_status = ''success'' \<rparr>)"

section \<open>Portfolio optimization\<close>

text \<open>An entry of a fixed asset table, and the asset that \<^verbatim>\<open>generateAssets\<close> makes of it:
  the entry's fields (\<^verbatim>\<open>...asset\<close>) and \<^verbatim>\<open>type\<close>, \<^verbatim>\<open>value\<close> and, for a green asset only,
  \<^verbatim>\<open>esg_rating\<close> and \<^verbatim>\<open>sdg_aligned\<close>. The fields \<^verbatim>\<open>type\<close> and \<^verbatim>\<open>value\<close> are
  \<open>asset_type\<close> and \<open>asset_value\<close> here.\<close>

record asset_template =
  name :: string
  allocation :: real
  expected_return :: real
  volatility :: real
  annual_co2_tons :: int

record asset = asset_template +
  asset_type :: string
  asset_value :: real
  esg_rating :: "string option"
  sdg_aligned :: "bool option"

text \<open>An entry as an object literal of the tables writes it: the name, then
  \<^verbatim>\<open>allocation\<close>, \<^verbatim>\<open>expected_return\<close> and \<^verbatim>\<open>volatility\<close>, each stored as the double nearest
  to the decimal fraction written, then \<^verbatim>\<open>annual_co2_tons\<close>, an integer.\<close>

definition asset_template :: "string \<Rightarrow> real \<Rightarrow> real \<Rightarrow> real \<Rightarrow> int \<Rightarrow> asset_template" where
  "asset_template n a r v c =
    \<lparr> name = n, allocation = binary64 a, expected_return = binary64 r,
      volatility = binary64 v, annual_co2_tons = c \<rparr>"

text \<open>The object literal \<^verbatim>\<open>assetSets\<close> (lines 90 to 124) and the property read
  \<^verbatim>\<open>assetSets[riskTolerance]\<close>. A key that is none of the three gives no table: the read
  is \<^verbatim>\<open>undefined\<close>, or a member inherited from \<^verbatim>\<open>Object.prototype\<close>, and neither has
  a method \<^verbatim>\<open>map\<close>.\<close>

definition assetSets :: "bool \<Rightarrow> string \<Rightarrow> asset_template list option" where
  "assetSets isGreen = map_of
    [(''conservative'',
      if isGreen then
        [asset_template ''Green Bonds'' 0.50 0.045 0.06 25,
         asset_template ''Renewable Energy Funds'' 0.25 0.07 0.12 50,
         asset_template ''ESG Index Funds'' 0.15 0.065 0.10 100,
         asset_template ''Sustainable Real Estate'' 0.10 0.055 0.09 75]
      else
        [asset_template ''Corporate Bonds'' 0.60 0.04 0.05 500,
         asset_template ''Large Cap Stocks'' 0.25 0.08 0.15 2000,
         asset_template ''Real Estate'' 0.10 0.06 0.12 1500,
         asset_template ''Cash'' 0.05 0.01 0.02 0]),
     (''moderate'',
      if isGreen then
        [asset_template ''ESG Equity Funds'' 0.35 0.085 0.14 90,
         asset_template ''Green Bonds'' 0.30 0.045 0.06 25,
         asset_template ''Renewable Infrastructure'' 0.20 0.075 0.11 60,
         asset_template ''Sustainable Agriculture'' 0.15 0.070 0.13 50]
      else
        [asset_template ''Index Funds'' 0.40 0.08 0.15 2000,
         asset_template ''Bonds'' 0.30 0.04 0.06 500,
         asset_template ''Stocks'' 0.20 0.10 0.18 2500,
         asset_template ''Alternatives'' 0.10 0.07 0.20 1800]),
     (''aggressive'',
      if isGreen then
        [asset_template ''Clean Tech Stocks'' 0.40 0.13 0.24 75,
         asset_template ''Solar Energy Companies'' 0.25 0.14 0.26 40,
         asset_template ''Electric Vehicle Sector'' 0.20 0.12 0.23 100,
         asset_template ''Carbon Credit Futures'' 0.15 0.10 0.28 25]
      else
        [asset_template ''Growth Stocks'' 0.50 0.12 0.25 3000,
         asset_template ''Tech Stocks'' 0.25 0.15 0.30 2500,
         asset_template ''Emerging Markets'' 0.15 0.10 0.28 3500,
         asset_template ''Commodities'' 0.10 0.08 0.22 4000])]"

text \<open>The callback of \<^verbatim>\<open>.map\<close> (lines 126 to 132). Only a green asset draws a random
  number (\<^verbatim>\<open>isGreen && {...}\<close>), so with the traditional assets generated first, the green
  asset at index \<open>i\<close> makes call number \<open>i\<close> of \<^verbatim>\<open>Math.random()\<close>.\<close>

definition make_asset :: "rng \<Rightarrow> real \<Rightarrow> bool \<Rightarrow> nat \<times> asset_template \<Rightarrow> asset" where
  "make_asset rnd capital isGreen ia =
    (case ia of (i, a) \<Rightarrow>
      \<lparr> name = name a,
        allocation = allocation a,
        expected_return = expected_return a,
        volatility = volatility a,
        annual_co2_tons = Math_round (mul64 (real_of_int (annual_co2_tons a)) (allocation a)),
        asset_type = (if isGreen then ''green'' else ''traditional''),
        asset_value =
          div64 (real_of_int (Math_round (mul64 (mul64 capital (allocation a)) 100))) 100,
        esg_rating =
          (if isGreen then Some (if randomBetween (rnd i) 0 1 > 0.5 then ''AAA'' else ''AA'')
           else None),
        sdg_aligned = (if isGreen then Some True else None) \<rparr>)"

text \<open>\<^verbatim>\<open>assetSets[riskTolerance].map(...)\<close> throws a \<^verbatim>\<open>TypeError\<close> where the read gives no
  table.\<close>

definition generateAssets :: "rng \<Rightarrow> real \<Rightarrow> string \<Rightarrow> bool \<Rightarrow> js_error + asset list" where
  "generateAssets rnd capital riskTolerance isGreen =
    (case assetSets isGreen riskTolerance of
       None \<Rightarrow> Inl TypeError
     | Some table \<Rightarrow> Inr (map (make_asset rnd capital isGreen) (enumerate 0 table)))"

text \<open>The result of \<^verbatim>\<open>calcMetrics\<close>; its field \<^verbatim>\<open>volatility\<close> is \<open>volatility_sum\<close> here.
  The three \<^verbatim>\<open>reduce\<close> calls are left folds from 0; the carbon footprint is a sum of
  integers, which doubles hold exactly.\<close>

record metrics =
  expectedReturn :: real
  volatility_sum :: real
  sharpeRatio :: real
  carbonFootprint :: int

definition calcMetrics :: "asset list \<Rightarrow> metrics" where
  "calcMetrics assets =
    (let expectedReturn =
           foldl (\<lambda>sum a. add64 sum (mul64 (expected_return a) (allocation a))) 0 assets;
         volatility = foldl (\<lambda>sum a. add64 sum (mul64 (volatility a) (allocation a))) 0 assets;
         carbonFootprint = foldl (\<lambda>sum a. sum + annual_co2_tons a) 0 assets;
         sharpeRatio = div64 (sub64 expectedReturn (binary64 0.02)) volatility
     in \<lparr> expectedReturn = expectedReturn, volatility_sum = volatility,
          sharpeRatio = sharpeRatio, carbonFootprint = carbonFootprint \<rparr>)"

text \<open>An integer in a template literal: its decimal digits, after a minus sign if it is
  negative.\<close>

fun digits10 :: "nat \<Rightarrow> string" where
  "digits10 n =
    (if n < 10 then [char_of (48 + n)] else digits10 (n div 10) @ [char_of (48 + n mod 10)])"

declare digits10.simps [simp del]

definition string_of_int :: "int \<Rightarrow> string" where
  "string_of_int i = (if i < 0 then CHR ''-'' # digits10 (nat (- i)) else digits10 (nat i))"

text \<open>The fields \<^verbatim>\<open>expected_return\<close> and \<^verbatim>\<open>volatility\<close> of a portfolio carry the prefix
  \<open>pf_\<close>, as do \<^verbatim>\<open>timestamp\<close>, \<^verbatim>\<open>recommendations\<close> and \<^verbatim>\<open>status\<close> of the response. Only
  the green portfolio has \<^verbatim>\<open>carbon_neutrality_timeline_years\<close> and
  \<^verbatim>\<open>sdg_alignment_score\<close>.\<close>

record portfolio =
  portfolio_type :: string
  total_value :: real
  assets :: "asset list"
  pf_expected_return :: real
  pf_volatility :: real
  sharpe_ratio :: real
  annual_carbon_footprint :: int
  carbon_neutrality_timeline_years :: "nat option"
  sdg_alignment_score :: "nat option"

record carbon_comparison =
  traditional_emissions_tons :: int
  green_emissions_tons :: int
  reduction_tons :: int
  reduction_percentage :: real
  net_zero_timeline_years :: nat

record portfolio_pair =
  pf_timestamp :: string
  traditional_portfolio :: portfolio
  green_portfolio :: portfolio
  carbon_comparison :: carbon_comparison
  pf_recommendations :: string
  pf_status :: string

definition mockPortfolioOptimization ::
  "clock \<Rightarrow> rng \<Rightarrow> real \<Rightarrow> string \<Rightarrow> real \<Rightarrow> js_error + portfolio_pair" where
  "mockPortfolioOptimization clk rnd capital riskTolerance targetReturn =
    (case generateAssets rnd capital riskTolerance False of
       Inl e \<Rightarrow> Inl e
     | Inr tradAssets \<Rightarrow>
    (case generateAssets rnd capital riskTolerance True of
       Inl e \<Rightarrow> Inl e
     | Inr greenAssets \<Rightarrow>
    (let tradMetrics = calcMetrics tradAssets;
         greenMetrics = calcMetrics greenAssets;
         reduction = carbonFootprint tradMetrics - carbonFootprint greenMetrics;
         reductionPct =
           mul64 (div64 (real_of_int reduction) (real_of_int (carbonFootprint tradMetrics))) 100
     in Inr \<lparr>
          pf_timestamp = isoNow clk,
          traditional_portfolio = \<lparr>
            portfolio_type = ''traditional'',
            total_value = capital,
            assets = tradAssets,
            pf_expected_return =
              div64 (real_of_int (Math_round (mul64 (expectedReturn tradMetrics) 10000))) 10000,
            pf_volatility =
              div64 (real_of_int (Math_round (mul64 (volatility_sum tradMetrics) 10000))) 10000,
            sharpe_ratio =
              div64 (real_of_int (Math_round (mul64 (sharpeRatio tradMetrics) 1000))) 1000,
            annual_carbon_footprint = Math_round (real_of_int (carbonFootprint tradMetrics)),
            carbon_neutrality_timeline_years = None,
            sdg_alignment_score = None \<rparr>,
          green_portfolio = \<lparr>
            portfolio_type = ''green'',
            total_value = capital,
            assets = greenAssets,
            pf_expected_return =
              div64 (real_of_int (Math_round (mul64 (expectedReturn greenMetrics) 10000))) 10000,
            pf_volatility =
              div64 (real_of_int (Math_round (mul64 (volatility_sum greenMetrics) 10000))) 10000,
            sharpe_ratio =
              div64 (real_of_int (Math_round (mul64 (sharpeRatio greenMetrics) 1000))) 1000,
            annual_carbon_footprint = Math_round (real_of_int (carbonFootprint greenMetrics)),
            carbon_neutrality_timeline_years =
              Some (if carbonFootprint greenMetrics \<le> 100 then 2
                    else if carbonFootprint greenMetrics \<le> 300 then 5 else 8),
            sdg_alignment_score = Some 85 \<rparr>,
          carbon_comparison = \<lparr>
            traditional_emissions_tons = Math_round (real_of_int (carbonFootprint tradMetrics)),
            green_emissions_tons = Math_round (real_of_int (carbonFootprint greenMetrics)),
            reduction_tons = Math_round (real_of_int reduction),
            reduction_percentage =
              div64 (real_of_int (Math_round (mul64 reductionPct 10))) 10,
            net_zero_timeline_years =
              (if carbonFootprint greenMetrics \<le> 100 then 2
               else if carbonFootprint greenMetrics \<le> 300 then 5 else 8) \<rparr>,
          pf_recommendations =
            ''Consider green portfolio for '' @ string_of_int (Math_round reductionPct)
              @ ''% lower carbon footprint with comparable returns'',
          pf_status = ''success'' \<rparr>)))"

section \<open>Properties\<close>

text \<open>The digits of a positive integer bracket it between two powers of 2.\<close>

lemma bit_length_nonneg: "0 \<le> bit_length n"
proof (induction n rule: bit_length.induct)
  case (1 n)
  show ?case
  proof (cases "n \<le> 0")
    case True
    then show ?thesis by (simp add: bit_length.simps)
  next
    case False
    with 1 have "0 \<le> bit_length (n div 2)" by simp
    with False show ?thesis by (subst bit_length.simps) simp
  qed
qed

lemma bit_length_pos: "0 < n \<Longrightarrow> 1 \<le> bit_length n"
  using bit_length_nonneg [of "n div 2"] by (subst bit_length.simps) simp

lemma bit_length_bounds:
  assumes "0 < n"
  shows "2 ^ nat (bit_length n - 1) \<le> n \<and> n < 2 ^ nat (bit_length n)"
  using assms
proof (induction n rule: bit_length.induct)
  case (1 n)
  show ?case
  proof (cases "n = 1")
    case True
    then show ?thesis by (simp add: bit_length.simps)
  next
    case False
    with "1.prems" have pos: "0 < n div 2" by simp
    from "1.IH" [OF _ pos] "1.prems"
    have ih: "2 ^ nat (bit_length (n div 2) - 1) \<le> n div 2"
      "n div 2 < 2 ^ nat (bit_length (n div 2))"
      by simp_all
    have bl: "bit_length n = 1 + bit_length (n div 2)"
      using "1.prems" by (subst bit_length.simps) simp
    note one = bit_length_pos [OF pos]
    have low: "2 ^ nat (bit_length n - 1) \<le> n"
    proof -
      have "nat (bit_length n - 1) = Suc (nat (bit_length (n div 2) - 1))"
        using one bl by simp
      then have "(2::int) ^ nat (bit_length n - 1) = 2 * 2 ^ nat (bit_length (n div 2) - 1)"
        by simp
      also have "\<dots> \<le> 2 * (n div 2)" using ih(1) by simp
      also have "\<dots> \<le> n" by simp
      finally show ?thesis .
    qed
    have high: "n < 2 ^ nat (bit_length n)"
    proof -
      have "nat (bit_length n) = Suc (nat (bit_length (n div 2)))"
        using one bl by simp
      then have "(2::int) ^ nat (bit_length n) = 2 * 2 ^ nat (bit_length (n div 2))"
        by simp
      moreover have "n div 2 + 1 \<le> 2 ^ nat (bit_length (n div 2))" using ih(2) by simp
      moreover have "n < 2 * (n div 2 + 1)" by presburger
      ultimately show ?thesis by linarith
    qed
    from low high show ?thesis ..
  qed
qed

lemma bit_length_bounds_real:
  assumes "0 < n"
  shows "2 ^ nat (bit_length n - 1) \<le> real_of_int n"
    and "real_of_int n + 1 \<le> 2 ^ nat (bit_length n)"
proof -
  from bit_length_bounds [OF assms]
  have "real_of_int (2 ^ nat (bit_length n - 1)) \<le> real_of_int n"
    and "real_of_int (n + 1) \<le> real_of_int (2 ^ nat (bit_length n))"
    by (simp_all only: of_int_le_iff) simp_all
  then show "2 ^ nat (bit_length n - 1) \<le> real_of_int n"
    and "real_of_int n + 1 \<le> 2 ^ nat (bit_length n)"
    by simp_all
qed

text \<open>The exponent brackets a positive real between two neighbouring powers of 2.\<close>

lemma exponent_bounds:
  assumes "0 < x"
  shows "pow2 (exponent x) \<le> x \<and> x < pow2 (exponent x + 1)"
proof (cases "1 \<le> x")
  case True
  define n where "n = \<lfloor>x\<rfloor>"
  from True have n: "0 < n" unfolding n_def by simp
  note b = bit_length_pos [OF n]
  have "real_of_int n \<le> x" "x < real_of_int n + 1"
    unfolding n_def by linarith+
  with bit_length_bounds_real [OF n]
  have "2 ^ nat (bit_length n - 1) \<le> x" "x < 2 ^ nat (bit_length n)"
    by linarith+
  then show ?thesis
    using True b unfolding exponent_def pow2_def n_def [symmetric] by simp
next
  case False
  define k where "k = \<lceil>1 / x\<rceil> - 1"
  from False assms have y: "1 < 1 / x" by simp
  then have k: "0 < k" unfolding k_def by linarith
  note b = bit_length_pos [OF k]
  have "real_of_int k < 1 / x" "1 / x \<le> real_of_int k + 1"
    unfolding k_def by linarith+
  with bit_length_bounds_real [OF k]
  have lo: "2 ^ nat (bit_length k - 1) < 1 / x" and hi: "1 / x \<le> 2 ^ nat (bit_length k)"
    by linarith+
  from hi assms have h: "1 / 2 ^ nat (bit_length k) \<le> x"
    by (simp add: field_simps)
  from lo assms have l: "x < 1 / 2 ^ nat (bit_length k - 1)"
    by (simp add: field_simps)
  have e: "exponent x = - bit_length k"
    using False unfolding exponent_def k_def by simp
  show ?thesis
  proof (cases "bit_length k = 1")
    case True
    with h l show ?thesis unfolding e pow2_def by simp
  next
    case False
    with b have "nat (- (- bit_length k + 1)) = nat (bit_length k - 1)" "\<not> 0 \<le> - bit_length k + 1"
      by simp_all
    with h l b show ?thesis unfolding e pow2_def by simp
  qed
qed

lemma pow2_pos: "0 < pow2 e"
  by (simp add: pow2_def)

lemma round_half_even_error: "\<bar>real_of_int (round_half_even y) - y\<bar> \<le> 1 / 2"
  unfolding round_half_even_def Let_def by (auto simp: abs_le_iff)

text \<open>Rounding to a double moves a value by at most half the spacing of the doubles
  around it.\<close>

lemma binary64_error:
  assumes "q = pow2 (max (exponent \<bar>x\<bar>) (- 1022) - 52)"
  shows "\<bar>binary64 x - x\<bar> \<le> q / 2"
proof (cases "x = 0")
  case True
  then show ?thesis using pow2_pos [of "max (exponent \<bar>x\<bar>) (- 1022) - 52"]
    unfolding assms binary64_def by simp
next
  case False
  have q: "0 < q" unfolding assms by (rule pow2_pos)
  have "binary64 x - x = (real_of_int (round_half_even (x / q)) - x / q) * q"
    using False q unfolding binary64_def Let_def assms [symmetric] by (simp add: field_simps)
  then have "\<bar>binary64 x - x\<bar> = \<bar>real_of_int (round_half_even (x / q)) - x / q\<bar> * q"
    using q by (simp add: abs_mult)
  also have "\<dots> \<le> 1 / 2 * q"
    using round_half_even_error [of "x / q"] q by (intro mult_right_mono) simp_all
  finally show ?thesis by simp
qed

text \<open>Rounding to cents moves a value by at most half a cent.\<close>

lemma round_cents_error: "\<bar>real_of_int (Math_round (x * 100)) / 100 - x\<bar> \<le> 1 / 200"
proof -
  define n where "n = \<lfloor>x * 100 + 1 / 2\<rfloor>"
  have "real_of_int n \<le> x * 100 + 1 / 2" unfolding n_def by (rule of_int_floor_le)
  moreover have "x * 100 + 1 / 2 < real_of_int n + 1" unfolding n_def by linarith
  ultimately show ?thesis unfolding Math_round_def n_def [symmetric] by linarith
qed

text \<open>The locals of the loan computation, field by field.\<close>

lemma band_cases:
  obtains "80 \<le> (c::real)" | "65 \<le> c" "c < 80" | "55 \<le> c" "c < 65" | "c < 55"
  by linarith

lemma loan_calc_interestRate:
  "interestRate (loan_calc c a) =
     (if 80 \<le> c then 0.06 else if 65 \<le> c then 0.08 else if 55 \<le> c then 0.10 else 0.12)"
  by (simp add: loan_calc_def Let_def)

lemma loan_calc_maxAmount:
  "maxAmount (loan_calc c a) =
     (if 80 \<le> c then a * 1.2 else if 65 \<le> c then a else if 55 \<le> c then a * 0.8 else a * 0.5)"
  by (simp add: loan_calc_def Let_def)

lemma loan_calc_approvedAmount:
  "approvedAmount (loan_calc c a) = min a (maxAmount (loan_calc c a))"
  by (cases c rule: band_cases) (simp_all add: loan_calc_def Let_def)

lemma loan_calc_termMonths: "termMonths (loan_calc c a) = 24"
  by (cases c rule: band_cases) (simp_all add: loan_calc_def Let_def)

lemma loan_calc_monthlyRate: "monthlyRate (loan_calc c a) = interestRate (loan_calc c a) / 12"
  by (cases c rule: band_cases) (simp_all add: loan_calc_def Let_def)

lemma loan_calc_monthlyPayment:
  "monthlyPayment (loan_calc c a) =
     approvedAmount (loan_calc c a)
       * (monthlyRate (loan_calc c a) * (1 + monthlyRate (loan_calc c a)) ^ 24)
       / ((1 + monthlyRate (loan_calc c a)) ^ 24 - 1)"
  by (cases c rule: band_cases)
    (simp_all only: loan_calc_def Let_def loan_calc.select_convs prod.case if_True if_False
       not_le [symmetric] simp_thms split: if_split)

lemma loan_calc_totalRepayment:
  "totalRepayment (loan_calc c a) = monthlyPayment (loan_calc c a) * 24"
  by (cases c rule: band_cases)
    (simp_all only: loan_calc_def Let_def loan_calc.select_convs prod.case if_True if_False
       of_nat_numeral simp_thms split: if_split)


lemma mockMicroLoan_composite:
  assumes "composite = 0.5 * randomBetween (rnd 0) 50 95 + 0.3 * randomBetween (rnd 1) 40 90
      + 0.2 * randomBetween (rnd 2) 55 85"
  shows "randomBetween (rnd 0) 50 95 * 0.5 + randomBetween (rnd 1) 40 90 * 0.3
      + randomBetween (rnd 2) 55 85 * 0.2 = composite"
  using assms by simp


lemma mockMicroLoan_loan_terms:
  assumes "composite = 0.5 * randomBetween (rnd 0) 50 95 + 0.3 * randomBetween (rnd 1) 40 90
      + 0.2 * randomBetween (rnd 2) 55 85"
      and "c = loan_calc composite amount"
  shows "\<exists>lt. loan_terms (mockMicroLoan clk rnd applicantId amount purpose additionalData) = Some lt
    \<and> approved_amount lt = real_of_int (Math_round (approvedAmount c * 100)) / 100
    \<and> interest_rate lt = real_of_int (Math_round (interestRate c * 10000)) / 10000
    \<and> loan_term_months lt = termMonths c
    \<and> monthly_payment lt = real_of_int (Math_round (monthlyPayment c * 100)) / 100
    \<and> total_repayment lt = real_of_int (Math_round (totalRepayment c * 100)) / 100
    \<and> total_interest lt
        = real_of_int (Math_round ((totalRepayment c - approvedAmount c) * 100)) / 100
    \<and> first_payment_date lt = isoDateIn30Days clk"
  unfolding mockMicroLoan_def Let_def mockMicroLoan_composite [OF assms(1)] assms(2)
  by (simp only: loan_decision.select_convs loan_terms.select_convs option.inject simp_thms ex_simps)


lemma monthly_rate_pos: "0 < interestRate (loan_calc c a) / 12"
  by (simp add: loan_calc_interestRate)



text \<open>The greenwashing report, field by field.\<close>

lemma rule_checks_riskFactors:
  "snd (rule_checks rnd) =
     (if randomInt (rnd 0) 50 95 > 80 \<and> randomInt (rnd 1) 500 4000 > 3000 then 2 else 0)
   + (if randomInt (rnd 0) 50 95 > 70 \<and> randomInt (rnd 2) 10 70 < 20 then 3 else 0)
   + (if randomBetween (rnd 3) (- 0.1) 0.1 > 0.05 \<and> randomInt (rnd 0) 50 95 > 75 then 3 else 0)"
  by (simp add: rule_checks_def Let_def check_high_score_high_emissions_def
      check_score_renewable_mismatch_def check_increasing_emissions_high_score_def)

lemma mockGreenwashingCheck_index:
  "greenwashing_risk_index (mockGreenwashingCheck clk rnd companyId)
     = min 100 (snd (rule_checks rnd) * 15 + randomInt (rnd 4) 0 20)"
  by (simp add: mockGreenwashingCheck_def Let_def case_prod_beta)

lemma mockGreenwashingCheck_level:
  "risk_level (mockGreenwashingCheck clk rnd companyId)
     = (if greenwashing_risk_index (mockGreenwashingCheck clk rnd companyId) > 60 then ''high''
        else if greenwashing_risk_index (mockGreenwashingCheck clk rnd companyId) > 30
        then ''moderate'' else ''low'')"
  by (simp add: mockGreenwashingCheck_def Let_def case_prod_beta)

lemma mockGreenwashingCheck_recommendations:
  "gw_recommendations (mockGreenwashingCheck clk rnd companyId)
     = recommendations_for (greenwashing_risk_index (mockGreenwashingCheck clk rnd companyId))"
  by (simp add: mockGreenwashingCheck_def Let_def case_prod_beta)


text \<open>The asset tables and the assets made of them.\<close>

lemma assetSets_None:
  "assetSets isGreen riskTolerance = None
     \<longleftrightarrow> riskTolerance \<notin> {''conservative'', ''moderate'', ''aggressive''}"
  by (simp add: assetSets_def)

text \<open>The stored allocations of the six tables; the conservative green table and the
  aggressive traditional table hold the same four.\<close>

lemma assetSets_allocation_lists:
  assumes "assetSets isGreen riskTolerance = Some table"
  shows "map allocation table \<in>
    {[binary64 0.50, binary64 0.25, binary64 0.15, binary64 0.10],
     [binary64 0.60, binary64 0.25, binary64 0.10, binary64 0.05],
     [binary64 0.35, binary64 0.30, binary64 0.20, binary64 0.15],
     [binary64 0.40, binary64 0.30, binary64 0.20, binary64 0.10],
     [binary64 0.40, binary64 0.25, binary64 0.20, binary64 0.15]}"
proof -
  from assms have "riskTolerance \<in> {''conservative'', ''moderate'', ''aggressive''}"
    using assetSets_None [of isGreen riskTolerance] by auto
  then consider "riskTolerance = ''conservative''" | "riskTolerance = ''moderate''"
    | "riskTolerance = ''aggressive''"
    by blast
  then show ?thesis
  proof cases
    case 1
    with assms show ?thesis
      by (cases isGreen) (auto simp: assetSets_def asset_template_def)
  next
    case 2
    with assms show ?thesis
      by (cases isGreen) (auto simp: assetSets_def asset_template_def)
  next
    case 3
    with assms show ?thesis
      by (cases isGreen) (auto simp: assetSets_def asset_template_def)
  qed
qed

text \<open>The doubles of the ten allocation literals.\<close>

lemma binary64_allocations:
  "binary64 0.50 = 1 / 2" "binary64 0.25 = 1 / 4"
  "binary64 0.15 = 5404319552844595 / 2 ^ 55" "binary64 0.10 = 3602879701896397 / 2 ^ 55"
  "binary64 0.60 = 5404319552844595 / 2 ^ 53" "binary64 0.05 = 3602879701896397 / 2 ^ 56"
  "binary64 0.35 = 3152519739159347 / 2 ^ 53" "binary64 0.30 = 5404319552844595 / 2 ^ 54"
  "binary64 0.20 = 3602879701896397 / 2 ^ 54" "binary64 0.40 = 3602879701896397 / 2 ^ 53"
  by code_simp+

text \<open>Their sums, exact and from left to right in double arithmetic.\<close>

lemma exact_sums:
  "sum_list [binary64 0.50, binary64 0.25, binary64 0.15, binary64 0.10] = 1"
  "sum_list [binary64 0.60, binary64 0.25, binary64 0.10, binary64 0.05] = 1 - 1 / 2 ^ 56"
  "sum_list [binary64 0.35, binary64 0.30, binary64 0.20, binary64 0.15] = 1 - 1 / 2 ^ 55"
  "sum_list [binary64 0.40, binary64 0.30, binary64 0.20, binary64 0.10] = 1 + 1 / 2 ^ 55"
  "sum_list [binary64 0.40, binary64 0.25, binary64 0.20, binary64 0.15] = 1 + 1 / 2 ^ 55"
  unfolding binary64_allocations by simp_all

lemma double_sums:
  "foldl add64 0 [binary64 0.50, binary64 0.25, binary64 0.15, binary64 0.10] = 1"
  "foldl add64 0 [binary64 0.60, binary64 0.25, binary64 0.10, binary64 0.05] = 1"
  "foldl add64 0 [binary64 0.35, binary64 0.30, binary64 0.20, binary64 0.15] = 1 - 1 / 2 ^ 53"
  "foldl add64 0 [binary64 0.40, binary64 0.30, binary64 0.20, binary64 0.10] = 1 - 1 / 2 ^ 53"
  "foldl add64 0 [binary64 0.40, binary64 0.25, binary64 0.20, binary64 0.15] = 1"
  by code_simp+

lemma assetSets_allocations:
  assumes "assetSets isGreen riskTolerance = Some table"
  shows "\<bar>sum_list (map allocation table) - 1\<bar> \<le> 1 / 2 ^ 52"
    and "\<bar>foldl add64 0 (map allocation table) - 1\<bar> \<le> 1 / 2 ^ 52"
  using assetSets_allocation_lists [OF assms]
  by (elim insertE emptyE; simp only: exact_sums double_sums; simp)+

lemma make_asset_allocation:
  "map allocation (map (make_asset rnd capital isGreen) (enumerate n table)) = map allocation table"
  by (induction table arbitrary: n) (simp_all add: make_asset_def)

lemma generateAssets_allocations:
  assumes "generateAssets rnd capital riskTolerance isGreen = Inr as"
  shows "\<exists>table. assetSets isGreen riskTolerance = Some table
    \<and> map allocation as = map allocation table"
proof (cases "assetSets isGreen riskTolerance")
  case None
  with assms show ?thesis by (simp add: generateAssets_def)
next
  case (Some table)
  with assms have "as = map (make_asset rnd capital isGreen) (enumerate 0 table)"
    by (simp add: generateAssets_def)
  then have "map allocation as = map allocation table"
    by (simp only: make_asset_allocation)
  with Some show ?thesis by blast
qed

lemma generateAssets_TypeError:
  "generateAssets rnd capital riskTolerance isGreen = Inl TypeError
     \<longleftrightarrow> riskTolerance \<notin> {''conservative'', ''moderate'', ''aggressive''}"
  using assetSets_None [of isGreen riskTolerance]
  by (cases "assetSets isGreen riskTolerance") (simp_all add: generateAssets_def)

lemma js_error_TypeError: "(e::js_error) = TypeError"
  by (cases e) simp

lemma generateAssets_Inr:
  assumes "riskTolerance \<in> {''conservative'', ''moderate'', ''aggressive''}"
  shows "\<exists>as. generateAssets rnd capital riskTolerance isGreen = Inr as"
proof (cases "generateAssets rnd capital riskTolerance isGreen")
  case (Inl e)
  then have "generateAssets rnd capital riskTolerance isGreen = Inl TypeError"
    by (simp only: js_error_TypeError [of e])
  with assms show ?thesis by (simp only: generateAssets_TypeError simp_thms)
next
  case (Inr as)
  then show ?thesis by blast
qed

lemma mockPortfolioOptimization_Inr:
  assumes "riskTolerance \<in> {''conservative'', ''moderate'', ''aggressive''}"
  shows "\<exists>p. mockPortfolioOptimization clk rnd capital riskTolerance targetReturn = Inr p"
  using generateAssets_Inr [OF assms, of rnd capital False]
    generateAssets_Inr [OF assms, of rnd capital True]
  by (auto simp: mockPortfolioOptimization_def Let_def)

lemma mockPortfolioOptimization_assets:
  assumes "mockPortfolioOptimization clk rnd capital riskTolerance targetReturn = Inr p"
  shows "generateAssets rnd capital riskTolerance False = Inr (assets (traditional_portfolio p))"
    and "generateAssets rnd capital riskTolerance True = Inr (assets (green_portfolio p))"
  using assms
  by (auto simp: mockPortfolioOptimization_def Let_def split: sum.splits)

subsection \<open>The approval gate of the micro-loan\<close>




subsection \<open>Which draws the labels of the credit assessment depend on\<close>

text \<open>
  Claim C2, as amended. \<^verbatim>\<open>mockCreditAssessment\<close> makes nine draws. For two calls with the
  same parameters, equal values of the three score draws (traditional, carbon, ESG) give
  equal rating, interest-rate adjustment, reported scores, risk category, revenue,
  profitability and liquidity assessment, environmental, social and governance rating,
  reputational risk and recommendations. The leverage assessment and the default history
  each follow a draw of their own (calls 6 and 7), emission intensity follows the emissions
  draw (call 3), trend direction the trend draw (call 4), transition readiness and
  stranded-asset risk the renewable-percentage draw (call 5), regulatory risk the emissions
  and renewable-percentage draws; each of these labels is equal in the two responses when
  its own draws are. Equal values of all nine draws give equal responses.
\<close>

theorem credit_labels_by_draws:
  assumes "r = mockCreditAssessment clk rnd entityId entityType"
      and "r' = mockCreditAssessment clk rnd' entityId entityType"
  shows "(rnd 0 = rnd' 0 \<and> rnd 1 = rnd' 1 \<and> rnd 2 = rnd' 2 \<longrightarrow>
            credit_rating r = credit_rating r'
          \<and> risk_category (risk_analysis r) = risk_category (risk_analysis r')
          \<and> revenue_assessment (traditional_risk (risk_analysis r))
              = revenue_assessment (traditional_risk (risk_analysis r'))
          \<and> profitability_assessment (traditional_risk (risk_analysis r))
              = profitability_assessment (traditional_risk (risk_analysis r'))
          \<and> liquidity_assessment (traditional_risk (risk_analysis r))
              = liquidity_assessment (traditional_risk (risk_analysis r'))
          \<and> environmental_rating (esg_risk (risk_analysis r))
              = environmental_rating (esg_risk (risk_analysis r'))
          \<and> social_rating (esg_risk (risk_analysis r)) = social_rating (esg_risk (risk_analysis r'))
          \<and> governance_rating (esg_risk (risk_analysis r))
              = governance_rating (esg_risk (risk_analysis r'))
          \<and> reputational_risk (esg_risk (risk_analysis r))
              = reputational_risk (esg_risk (risk_analysis r'))
          \<and> ca_recommendations r = ca_recommendations r')
       \<and> (rnd 6 = rnd' 6 \<longrightarrow>
            leverage_assessment (traditional_risk (risk_analysis r))
              = leverage_assessment (traditional_risk (risk_analysis r')))
       \<and> (rnd 7 = rnd' 7 \<longrightarrow>
            default_history (traditional_risk (risk_analysis r))
              = default_history (traditional_risk (risk_analysis r')))
       \<and> (rnd 3 = rnd' 3 \<longrightarrow>
            emission_intensity (carbon_risk (risk_analysis r))
              = emission_intensity (carbon_risk (risk_analysis r')))
       \<and> (rnd 4 = rnd' 4 \<longrightarrow>
            trend_direction (carbon_risk (risk_analysis r))
              = trend_direction (carbon_risk (risk_analysis r')))
       \<and> (rnd 5 = rnd' 5 \<longrightarrow>
            transition_readiness (carbon_risk (risk_analysis r))
              = transition_readiness (carbon_risk (risk_analysis r'))
          \<and> stranded_asset_risk (carbon_risk (risk_analysis r))
              = stranded_asset_risk (carbon_risk (risk_analysis r')))
       \<and> (rnd 3 = rnd' 3 \<and> rnd 5 = rnd' 5 \<longrightarrow>
            regulatory_risk (carbon_risk (risk_analysis r))
              = regulatory_risk (carbon_risk (risk_analysis r')))
       \<and> ((\<forall>k<9. rnd k = rnd' k) \<longrightarrow> r = r')"
proof -
  have all: "r = r'" if "\<forall>k<9. rnd k = rnd' k"
  proof -
    from that have "rnd 0 = rnd' 0" "rnd 1 = rnd' 1" "rnd 2 = rnd' 2" "rnd 3 = rnd' 3"
      "rnd 4 = rnd' 4" "rnd 5 = rnd' 5" "rnd 6 = rnd' 6" "rnd 7 = rnd' 7" "rnd 8 = rnd' 8"
      by simp_all
    then show ?thesis unfolding assms mockCreditAssessment_def by simp
  qed
  show ?thesis
    using all unfolding assms mockCreditAssessment_def Let_def
    by (simp add: case_prod_beta)
qed

text \<open>Two calls that agree on the three score draws, the trend, renewable-percentage and
  leverage draws and differ in the emissions and default-history draws; and two calls that
  agree on all nine draws and differ in a tenth value, which the function never reads.\<close>

theorem credit_labels_by_draws_witness:
  "(let r = mockCreditAssessment \<lparr>isoNow = ''2026-01-01T00:00:00.000Z'', isoDateIn30Days = ''2026-01-31''\<rparr>
        (draws [6 / 10, 1 / 2, 9 / 10, 0, 0, 0, 0, 0, 0]) ''ACME'' ''company'';
        r' = mockCreditAssessment \<lparr>isoNow = ''2026-01-01T00:00:00.000Z'', isoDateIn30Days = ''2026-01-31''\<rparr>
        (draws [6 / 10, 1 / 2, 9 / 10, 9 / 10, 0, 0, 0, 9 / 10, 0]) ''ACME'' ''company''
    in credit_rating r = credit_rating r'
     \<and> rating (credit_rating r) = ''AA''
     \<and> environmental_rating (esg_risk (risk_analysis r')) = ''excellent''
     \<and> ca_recommendations r = ca_recommendations r'
     \<and> leverage_assessment (traditional_risk (risk_analysis r))
              = leverage_assessment (traditional_risk (risk_analysis r'))
     \<and> trend_direction (carbon_risk (risk_analysis r)) = trend_direction (carbon_risk (risk_analysis r'))
     \<and> stranded_asset_risk (carbon_risk (risk_analysis r)) = ''high'')
   \<and> mockCreditAssessment \<lparr>isoNow = ''2026-01-01T00:00:00.000Z'', isoDateIn30Days = ''2026-01-31''\<rparr>
        (draws [6 / 10, 1 / 2, 9 / 10, 1 / 5, 0, 0, 0, 9 / 10, 0]) ''ACME'' ''company''
     = mockCreditAssessment \<lparr>isoNow = ''2026-01-01T00:00:00.000Z'', isoDateIn30Days = ''2026-01-31''\<rparr>
        (draws [6 / 10, 1 / 2, 9 / 10, 1 / 5, 0, 0, 0, 9 / 10, 0, 3 / 4]) ''ACME'' ''company''"
proof -
  have draws_agree_example:
    "\<forall>k<9. draws [6 / 10, 1 / 2, 9 / 10, 1 / 5, 0, 0, 0, 9 / 10, 0] k
       = draws [6 / 10, 1 / 2, 9 / 10, 1 / 5, 0, 0, 0, 9 / 10, 0, 3 / 4] k"
    by (simp add: draws_def nth_Cons')
  note a = credit_labels_by_draws [OF refl refl, of "draws [6 / 10, 1 / 2, 9 / 10, 0, 0, 0, 0, 0, 0]"
      "draws [6 / 10, 1 / 2, 9 / 10, 9 / 10, 0, 0, 0, 9 / 10, 0]"
      "\<lparr>isoNow = ''2026-01-01T00:00:00.000Z'', isoDateIn30Days = ''2026-01-31''\<rparr>" "''ACME''" "''company''"]
  note b = credit_labels_by_draws [OF refl refl, of "draws [6 / 10, 1 / 2, 9 / 10, 1 / 5, 0, 0, 0, 9 / 10, 0]"
      "draws [6 / 10, 1 / 2, 9 / 10, 1 / 5, 0, 0, 0, 9 / 10, 0, 3 / 4]"
      "\<lparr>isoNow = ''2026-01-01T00:00:00.000Z'', isoDateIn30Days = ''2026-01-31''\<rparr>" "''ACME''" "''company''"]
  from b draws_agree_example have second: "mockCreditAssessment \<lparr>isoNow = ''2026-01-01T00:00:00.000Z'', isoDateIn30Days = ''2026-01-31''\<rparr>
        (draws [6 / 10, 1 / 2, 9 / 10, 1 / 5, 0, 0, 0, 9 / 10, 0]) ''ACME'' ''company''
     = mockCreditAssessment \<lparr>isoNow = ''2026-01-01T00:00:00.000Z'', isoDateIn30Days = ''2026-01-31''\<rparr>
        (draws [6 / 10, 1 / 2, 9 / 10, 1 / 5, 0, 0, 0, 9 / 10, 0, 3 / 4]) ''ACME'' ''company''"
    by blast
  have first: "draws [6 / 10, 1 / 2, 9 / 10, 0, 0, 0, 0, 0, 0] k
       = draws [6 / 10, 1 / 2, 9 / 10, 9 / 10, 0, 0, 0, 9 / 10, 0] k"
    if "k \<in> {0, 1, 2, 4, 5, 6}" for k
    using that by (auto simp: draws_def)
  have vals: "rating (credit_rating (mockCreditAssessment \<lparr>isoNow = ''2026-01-01T00:00:00.000Z'', isoDateIn30Days = ''2026-01-31''\<rparr>
        (draws [6 / 10, 1 / 2, 9 / 10, 0, 0, 0, 0, 0, 0]) ''ACME'' ''company'')) = ''AA''"
    "environmental_rating (esg_risk (risk_analysis (mockCreditAssessment \<lparr>isoNow = ''2026-01-01T00:00:00.000Z'', isoDateIn30Days = ''2026-01-31''\<rparr>
        (draws [6 / 10, 1 / 2, 9 / 10, 9 / 10, 0, 0, 0, 9 / 10, 0]) ''ACME'' ''company''))) = ''excellent''"
    "stranded_asset_risk (carbon_risk (risk_analysis (mockCreditAssessment \<lparr>isoNow = ''2026-01-01T00:00:00.000Z'', isoDateIn30Days = ''2026-01-31''\<rparr>
        (draws [6 / 10, 1 / 2, 9 / 10, 0, 0, 0, 0, 0, 0]) ''ACME'' ''company''))) = ''high''"
    by (simp_all add: draws_def mockCreditAssessment_def randomBetween_def randomInt_def)
  show ?thesis
    unfolding Let_def using a first [of 0] first [of 1] first [of 2] first [of 4] first [of 5] first [of 6]
      second vals
    by blast
qed

text \<open>
  The claim as first stated, that every label is a function of the three score draws alone,
  fails: two calls whose three score draws are all 0 differ in leverage assessment, default
  history, emission intensity and transition readiness once the later draws differ.
\<close>

theorem credit_labels_counterexample:
  "draws [0, 0, 0, 0, 0, 0, 0, 0, 0] 0 = draws [0, 0, 0, 9 / 10, 9 / 10, 9 / 10, 9 / 10, 9 / 10, 0] 0
 \<and> draws [0, 0, 0, 0, 0, 0, 0, 0, 0] 1 = draws [0, 0, 0, 9 / 10, 9 / 10, 9 / 10, 9 / 10, 9 / 10, 0] 1
 \<and> draws [0, 0, 0, 0, 0, 0, 0, 0, 0] 2 = draws [0, 0, 0, 9 / 10, 9 / 10, 9 / 10, 9 / 10, 9 / 10, 0] 2
 \<and> traditional_risk (risk_analysis (mockCreditAssessment
        \<lparr>isoNow = ''2026-01-01T00:00:00.000Z'', isoDateIn30Days = ''2026-01-31''\<rparr>
        (draws [0, 0, 0, 0, 0, 0, 0, 0, 0]) ''ACME'' ''company''))
    = \<lparr> risk_score = 45, revenue_assessment = ''moderate'', profitability_assessment = ''moderate'',
        leverage_assessment = ''moderate'', liquidity_assessment = ''moderate'',
        default_history = ''clean'' \<rparr>
 \<and> traditional_risk (risk_analysis (mockCreditAssessment
        \<lparr>isoNow = ''2026-01-01T00:00:00.000Z'', isoDateIn30Days = ''2026-01-31''\<rparr>
        (draws [0, 0, 0, 9 / 10, 9 / 10, 9 / 10, 9 / 10, 9 / 10, 0]) ''ACME'' ''company''))
    = \<lparr> risk_score = 45, revenue_assessment = ''moderate'', profitability_assessment = ''moderate'',
        leverage_assessment = ''low'', liquidity_assessment = ''moderate'',
        default_history = ''concerning'' \<rparr>
 \<and> emission_intensity (carbon_risk (risk_analysis (mockCreditAssessment
        \<lparr>isoNow = ''2026-01-01T00:00:00.000Z'', isoDateIn30Days = ''2026-01-31''\<rparr>
        (draws [0, 0, 0, 0, 0, 0, 0, 0, 0]) ''ACME'' ''company''))) = ''moderate''
 \<and> emission_intensity (carbon_risk (risk_analysis (mockCreditAssessment
        \<lparr>isoNow = ''2026-01-01T00:00:00.000Z'', isoDateIn30Days = ''2026-01-31''\<rparr>
        (draws [0, 0, 0, 9 / 10, 9 / 10, 9 / 10, 9 / 10, 9 / 10, 0]) ''ACME'' ''company''))) = ''high''
 \<and> transition_readiness (carbon_risk (risk_analysis (mockCreditAssessment
        \<lparr>isoNow = ''2026-01-01T00:00:00.000Z'', isoDateIn30Days = ''2026-01-31''\<rparr>
        (draws [0, 0, 0, 0, 0, 0, 0, 0, 0]) ''ACME'' ''company''))) = ''developing''
 \<and> transition_readiness (carbon_risk (risk_analysis (mockCreditAssessment
        \<lparr>isoNow = ''2026-01-01T00:00:00.000Z'', isoDateIn30Days = ''2026-01-31''\<rparr>
        (draws [0, 0, 0, 9 / 10, 9 / 10, 9 / 10, 9 / 10, 9 / 10, 0]) ''ACME'' ''company''))) = ''strong''"
  by (simp add: draws_def mockCreditAssessment_def randomBetween_def randomInt_def Math_round_def)

subsection \<open>Rating bands of the credit assessment\<close>



subsection \<open>The allocations of a portfolio\<close>

text \<open>
  Claim C4, as amended. For each of the six fixed asset tables (risk tier conservative,
  moderate or aggressive; traditional or green), the allocation fractions of the portfolio,
  as the doubles the program holds, sum to 1 within floating-point tolerance: their exact
  sum, and their sum taken from left to right in double arithmetic (as a \<^verbatim>\<open>reduce\<close> from 0
  takes it), both differ from 1 by at most \<open>2^(-52)\<close>, the distance from 1 to the next
  double. \<^verbatim>\<open>generateAssets\<close> copies the allocations unchanged, so both portfolios of
  every response of \<^verbatim>\<open>mockPortfolioOptimization\<close> satisfy the same.
\<close>

theorem allocations_sum_within_tolerance:
  "(riskTolerance \<in> {''conservative'', ''moderate'', ''aggressive''} \<longrightarrow>
      (\<exists>table. assetSets isGreen riskTolerance = Some table
         \<and> \<bar>sum_list (map allocation table) - 1\<bar> \<le> 1 / 2 ^ 52
         \<and> \<bar>foldl add64 0 (map allocation table) - 1\<bar> \<le> 1 / 2 ^ 52))
 \<and> (mockPortfolioOptimization clk rnd capital riskTolerance targetReturn = Inr p \<longrightarrow>
      \<bar>sum_list (map allocation (assets (traditional_portfolio p))) - 1\<bar> \<le> 1 / 2 ^ 52
    \<and> \<bar>foldl add64 0 (map allocation (assets (traditional_portfolio p))) - 1\<bar> \<le> 1 / 2 ^ 52
    \<and> \<bar>sum_list (map allocation (assets (green_portfolio p))) - 1\<bar> \<le> 1 / 2 ^ 52
    \<and> \<bar>foldl add64 0 (map allocation (assets (green_portfolio p))) - 1\<bar> \<le> 1 / 2 ^ 52)"
proof -
  have tables: "\<exists>table. assetSets isGreen riskTolerance = Some table
         \<and> \<bar>sum_list (map allocation table) - 1\<bar> \<le> 1 / 2 ^ 52
         \<and> \<bar>foldl add64 0 (map allocation table) - 1\<bar> \<le> 1 / 2 ^ 52"
    if "riskTolerance \<in> {''conservative'', ''moderate'', ''aggressive''}"
  proof -
    from that obtain table where "assetSets isGreen riskTolerance = Some table"
      using assetSets_None [of isGreen riskTolerance] by auto
    then show ?thesis using assetSets_allocations by blast
  qed
  have generated: "\<bar>sum_list (map allocation as) - 1\<bar> \<le> 1 / 2 ^ 52
      \<and> \<bar>foldl add64 0 (map allocation as) - 1\<bar> \<le> 1 / 2 ^ 52"
    if "generateAssets rnd capital riskTolerance g = Inr as" for g as
  proof -
    from generateAssets_allocations [OF that] obtain table
      where "assetSets g riskTolerance = Some table" "map allocation as = map allocation table"
      by blast
    then show ?thesis using assetSets_allocations [of g riskTolerance table] by simp
  qed
  have "\<bar>sum_list (map allocation (assets (traditional_portfolio p))) - 1\<bar> \<le> 1 / 2 ^ 52
    \<and> \<bar>foldl add64 0 (map allocation (assets (traditional_portfolio p))) - 1\<bar> \<le> 1 / 2 ^ 52
    \<and> \<bar>sum_list (map allocation (assets (green_portfolio p))) - 1\<bar> \<le> 1 / 2 ^ 52
    \<and> \<bar>foldl add64 0 (map allocation (assets (green_portfolio p))) - 1\<bar> \<le> 1 / 2 ^ 52"
    if "mockPortfolioOptimization clk rnd capital riskTolerance targetReturn = Inr p"
    using generated [OF mockPortfolioOptimization_assets(1) [OF that]]
      generated [OF mockPortfolioOptimization_assets(2) [OF that]]
    by blast
  with tables show ?thesis by blast
qed

text \<open>The moderate tier, green table and both portfolios of a request for 10000.\<close>

theorem allocations_sum_within_tolerance_witness:
  "(\<exists>table. assetSets True ''moderate'' = Some table
      \<and> \<bar>sum_list (map allocation table) - 1\<bar> \<le> 1 / 2 ^ 52
      \<and> \<bar>foldl add64 0 (map allocation table) - 1\<bar> \<le> 1 / 2 ^ 52)
 \<and> (\<exists>p. mockPortfolioOptimization \<lparr>isoNow = ''2026-01-01T00:00:00.000Z'', isoDateIn30Days = ''2026-01-31''\<rparr> (draws [3 / 5, 0, 7 / 10, 0]) 10000 ''moderate'' 0.08 = Inr p
      \<and> \<bar>sum_list (map allocation (assets (traditional_portfolio p))) - 1\<bar> \<le> 1 / 2 ^ 52
      \<and> \<bar>foldl add64 0 (map allocation (assets (traditional_portfolio p))) - 1\<bar> \<le> 1 / 2 ^ 52
      \<and> \<bar>sum_list (map allocation (assets (green_portfolio p))) - 1\<bar> \<le> 1 / 2 ^ 52
      \<and> \<bar>foldl add64 0 (map allocation (assets (green_portfolio p))) - 1\<bar> \<le> 1 / 2 ^ 52)"
proof -
  have m: "''moderate'' \<in> {''conservative'', ''moderate'', ''aggressive''}"
    by simp
  obtain p where p: "mockPortfolioOptimization \<lparr>isoNow = ''2026-01-01T00:00:00.000Z'', isoDateIn30Days = ''2026-01-31''\<rparr> (draws [3 / 5, 0, 7 / 10, 0]) 10000 ''moderate'' 0.08
      = Inr p"
    using mockPortfolioOptimization_Inr [OF m] by blast
  note a = allocations_sum_within_tolerance [where riskTolerance = "''moderate''" and isGreen = True
      and clk = "\<lparr>isoNow = ''2026-01-01T00:00:00.000Z'', isoDateIn30Days = ''2026-01-31''\<rparr>" and rnd = "draws [3 / 5, 0, 7 / 10, 0]" and capital = 10000
      and targetReturn = "0.08" and p = p]
  from a m have "\<exists>table. assetSets True ''moderate'' = Some table
      \<and> \<bar>sum_list (map allocation table) - 1\<bar> \<le> 1 / 2 ^ 52
      \<and> \<bar>foldl add64 0 (map allocation table) - 1\<bar> \<le> 1 / 2 ^ 52"
    by (rule conjunct1 [THEN mp])
  moreover from a p have "\<bar>sum_list (map allocation (assets (traditional_portfolio p))) - 1\<bar> \<le> 1 / 2 ^ 52
      \<and> \<bar>foldl add64 0 (map allocation (assets (traditional_portfolio p))) - 1\<bar> \<le> 1 / 2 ^ 52
      \<and> \<bar>sum_list (map allocation (assets (green_portfolio p))) - 1\<bar> \<le> 1 / 2 ^ 52
      \<and> \<bar>foldl add64 0 (map allocation (assets (green_portfolio p))) - 1\<bar> \<le> 1 / 2 ^ 52"
    by (rule conjunct2 [THEN mp])
  ultimately show ?thesis using p by blast
qed

text \<open>
  The claim as first stated, that the allocations sum to exactly 1, fails for the moderate
  green table \<open>0.35, 0.30, 0.20, 0.15\<close>: the doubles held for these four fractions sum to
  \<open>1 - 2^(-55)\<close>, and added from left to right in double arithmetic they give
  \<open>1 - 2^(-53)\<close>, the double printed as 0.9999999999999999. The green portfolio of a moderate
  request carries the same four allocations.
\<close>

theorem allocations_exact_sum_counterexample:
  "map_option (map allocation) (assetSets True ''moderate'')
     = Some [3152519739159347 / 2 ^ 53, 5404319552844595 / 2 ^ 54,
             3602879701896397 / 2 ^ 54, 5404319552844595 / 2 ^ 55]
 \<and> map_option (sum_list \<circ> map allocation) (assetSets True ''moderate'') = Some (1 - 1 / 2 ^ 55)
 \<and> map_option (foldl add64 0 \<circ> map allocation) (assetSets True ''moderate'')
     = Some (1 - 1 / 2 ^ 53)
 \<and> map_sum id (foldl add64 0 \<circ> map allocation \<circ> assets \<circ> green_portfolio)
       (mockPortfolioOptimization \<lparr>isoNow = ''2026-01-01T00:00:00.000Z'', isoDateIn30Days = ''2026-01-31''\<rparr> (draws [3 / 5, 0, 7 / 10, 0]) 10000 ''moderate'' 0.08)
     = Inr (1 - 1 / 2 ^ 53)"
proof -
  have t: "map_option (map allocation) (assetSets True ''moderate'')
      = Some [binary64 0.35, binary64 0.30, binary64 0.20, binary64 0.15]"
    by (simp add: assetSets_def asset_template_def)
  have m: "''moderate'' \<in> {''conservative'', ''moderate'', ''aggressive''}"
    by simp
  obtain p where p: "mockPortfolioOptimization \<lparr>isoNow = ''2026-01-01T00:00:00.000Z'', isoDateIn30Days = ''2026-01-31''\<rparr> (draws [3 / 5, 0, 7 / 10, 0]) 10000 ''moderate'' 0.08
      = Inr p"
    using mockPortfolioOptimization_Inr [OF m] by blast
  from generateAssets_allocations [OF mockPortfolioOptimization_assets(2) [OF p]] t
  have g: "map allocation (assets (green_portfolio p))
      = [binary64 0.35, binary64 0.30, binary64 0.20, binary64 0.15]"
    by auto
  have s: "map_option (sum_list \<circ> map allocation) (assetSets True ''moderate'')
      = map_option sum_list (map_option (map allocation) (assetSets True ''moderate''))"
    "map_option (foldl add64 0 \<circ> map allocation) (assetSets True ''moderate'')
      = map_option (foldl add64 0) (map_option (map allocation) (assetSets True ''moderate''))"
    by (simp_all add: option.map_comp)
  show ?thesis
    apply (simp only: s t p option.map map_sum.simps comp_apply id_apply g)
    apply (simp only: exact_sums double_sums)
    apply (simp only: binary64_allocations simp_thms)
    done
qed

subsection \<open>The four pricing bands of the micro-loan\<close>



subsection \<open>The amortization identity of the loan terms\<close>

text \<open>
  Claim C6. Let \<open>A\<close> be the approved amount of a loan decision, \<open>m\<close> the monthly rate
  (the annual rate of the band divided by 12) and \<open>p = A * (m * (1 + m)^24) / ((1 + m)^24 - 1)\<close>
  the payment of the fixed-rate amortization formula over 24 months; the divisor is
  positive in every band. The response reports
  \<open>p\<close>, \<open>24 * p\<close>, \<open>24 * p - A\<close> and \<open>A\<close>, each rounded to cents, as
  \<^verbatim>\<open>monthly_payment\<close>, \<^verbatim>\<open>total_repayment\<close>, \<^verbatim>\<open>total_interest\<close> and
  \<^verbatim>\<open>approved_amount\<close>. So the reported fields satisfy
  \<open>monthly_payment * 24 - approved_amount = total_interest\<close> up to 0.13 and
  \<open>total_repayment = monthly_payment * 24\<close> up to 0.125: each rounding moves a value by at
  most half a cent, and the monthly payment counts 24 times.
\<close>

theorem amortization_identity:
  assumes "mobile = randomBetween (rnd 0) 50 95"
      and "green = randomBetween (rnd 1) 40 90"
      and "social = randomBetween (rnd 2) 55 85"
      and "composite = 0.5 * mobile + 0.3 * green + 0.2 * social"
      and "A = approvedAmount (loan_calc composite amount)"
      and "m = interestRate (loan_calc composite amount) / 12"
      and "p = A * (m * (1 + m) ^ 24) / ((1 + m) ^ 24 - 1)"
      and "r = mockMicroLoan clk rnd applicantId amount purpose additionalData"
  shows "0 < (1 + m) ^ 24 - 1
       \<and> (\<exists>lt. loan_terms r = Some lt
           \<and> loan_term_months lt = 24
           \<and> approved_amount lt = real_of_int (Math_round (A * 100)) / 100
           \<and> monthly_payment lt = real_of_int (Math_round (p * 100)) / 100
           \<and> total_repayment lt = real_of_int (Math_round (p * 24 * 100)) / 100
           \<and> total_interest lt = real_of_int (Math_round ((p * 24 - A) * 100)) / 100
           \<and> \<bar>monthly_payment lt * 24 - approved_amount lt - total_interest lt\<bar> \<le> 0.13
           \<and> \<bar>total_repayment lt - monthly_payment lt * 24\<bar> \<le> 0.125)"
proof -
  let ?c = "loan_calc composite amount"
  have comp: "composite = 0.5 * randomBetween (rnd 0) 50 95 + 0.3 * randomBetween (rnd 1) 40 90
      + 0.2 * randomBetween (rnd 2) 55 85"
    using assms(1-4) by simp
  have p: "monthlyPayment ?c = p"
    unfolding assms(7) assms(6) assms(5) loan_calc_monthlyPayment [of composite amount]
      loan_calc_monthlyRate [of composite amount] ..
  have t: "totalRepayment ?c = p * 24"
    unfolding loan_calc_totalRepayment p ..
  obtain lt where lt: "loan_terms r = Some lt" "loan_term_months lt = 24"
      "approved_amount lt = real_of_int (Math_round (A * 100)) / 100"
      "monthly_payment lt = real_of_int (Math_round (p * 100)) / 100"
      "total_repayment lt = real_of_int (Math_round (p * 24 * 100)) / 100"
      "total_interest lt = real_of_int (Math_round ((p * 24 - A) * 100)) / 100"
    using mockMicroLoan_loan_terms [OF comp refl, of clk applicantId amount purpose additionalData]
    unfolding assms(8) p t loan_calc_termMonths assms(5) by blast
  have e: "\<bar>approved_amount lt - A\<bar> \<le> 1 / 200" "\<bar>monthly_payment lt - p\<bar> \<le> 1 / 200"
    "\<bar>total_repayment lt - p * 24\<bar> \<le> 1 / 200" "\<bar>total_interest lt - (p * 24 - A)\<bar> \<le> 1 / 200"
    unfolding lt by (rule round_cents_error)+
  have "\<bar>monthly_payment lt * 24 - approved_amount lt - total_interest lt\<bar> \<le> 13 / 100"
    using e by linarith
  moreover have "\<bar>total_repayment lt - monthly_payment lt * 24\<bar> \<le> 1 / 8"
    using e by linarith
  ultimately have "\<bar>monthly_payment lt * 24 - approved_amount lt - total_interest lt\<bar> \<le> 0.13
      \<and> \<bar>total_repayment lt - monthly_payment lt * 24\<bar> \<le> 0.125"
    by simp
  moreover have "0 < (1 + m) ^ 24 - 1"
  proof -
    have "0 < m" unfolding assms(6) by (rule monthly_rate_pos)
    then have "1 < (1 + m) ^ 24" by (intro one_less_power) simp_all
    then show ?thesis by simp
  qed
  ultimately show ?thesis using lt by blast
qed

text \<open>A request of 5000 with all draws 0: 2500 at 12%, so \<open>m = 1/100\<close>. The reported
  monthly payment is 117.68, the total repayment 2824.41 and the total interest 324.41;
  \<open>117.68 * 24 - 2500 = 324.32\<close>, nine cents off the reported interest.\<close>

theorem amortization_identity_witness:
  "0 < (1 + 1 / 100) ^ 24 - (1::real)
 \<and> (\<exists>lt. loan_terms (mockMicroLoan \<lparr>isoNow = ''2026-01-01T00:00:00.000Z'', isoDateIn30Days = ''2026-01-31''\<rparr> (draws [0, 0, 0, 0]) ''A1'' 5000 ''business'' ()) = Some lt
      \<and> loan_term_months lt = 24 \<and> approved_amount lt = 2500 \<and> monthly_payment lt = 117.68
      \<and> total_repayment lt = 2824.41 \<and> total_interest lt = 324.41
      \<and> \<bar>monthly_payment lt * 24 - approved_amount lt - total_interest lt\<bar> \<le> 0.13
      \<and> \<bar>total_repayment lt - monthly_payment lt * 24\<bar> \<le> 0.125)"
proof -
  have c: "0.5 * randomBetween (draws [0, 0, 0, 0] 0) 50 95
      + 0.3 * randomBetween (draws [0, 0, 0, 0] 1) 40 90
      + 0.2 * randomBetween (draws [0, 0, 0, 0] 2) 55 85 = 48"
    by (simp add: draws_def randomBetween_def)
  have A: "approvedAmount (loan_calc 48 5000) = 2500"
    by (simp add: loan_calc_approvedAmount loan_calc_maxAmount)
  have m: "interestRate (loan_calc 48 5000) / 12 = 1 / 100"
    by (simp add: loan_calc_interestRate)
  have v: "real_of_int (Math_round (2500 * 100)) / 100 = 2500"
    "real_of_int (Math_round (2500 * (1 / 100 * (1 + 1 / 100) ^ 24) / ((1 + 1 / 100) ^ 24 - 1) * 100)) / 100
      = 117.68"
    "real_of_int (Math_round (2500 * (1 / 100 * (1 + 1 / 100) ^ 24) / ((1 + 1 / 100) ^ 24 - 1) * 24 * 100)) / 100
      = 2824.41"
    "real_of_int (Math_round ((2500 * (1 / 100 * (1 + 1 / 100) ^ 24) / ((1 + 1 / 100) ^ 24 - 1) * 24 - 2500) * 100)) / 100
      = 324.41"
    by (simp_all add: Math_round_def power_divide)
  show ?thesis
    using amortization_identity [OF refl refl refl refl refl refl refl refl,
        where rnd = "draws [0, 0, 0, 0]" and amount = 5000 and applicantId = "''A1''"
          and purpose = "''business''" and additionalData = "()"
          and clk = "\<lparr>isoNow = ''2026-01-01T00:00:00.000Z'', isoDateIn30Days = ''2026-01-31''\<rparr>"]
    unfolding c A m v .
qed

subsection \<open>The clamp of the greenwashing risk index\<close>

text \<open>
  Claim C7. The three rule checks add 2, 3 and 3 to \<^verbatim>\<open>riskFactors\<close> where they fire, so
  \<^verbatim>\<open>riskFactors\<close> is at most 8. For every combination of checks firing and every addend
  \<^verbatim>\<open>randomInt(0, 20)\<close>, which lies in \<open>{0, ..., 19}\<close> for a draw in \<open>[0, 1)\<close>, the index
  returned by \<^verbatim>\<open>mockGreenwashingCheck\<close> is \<open>min 100 (riskFactors * 15 + addend)\<close>, hence
  at most 100. The risk level is \<^verbatim>\<open>high\<close> iff the index exceeds 60, \<^verbatim>\<open>moderate\<close> iff it
  exceeds 30 and not 60, and \<^verbatim>\<open>low\<close> otherwise.
\<close>

theorem risk_index_clamped:
  assumes "envScore = randomInt (rnd 0) 50 95"
      and "emissions = randomInt (rnd 1) 500 4000"
      and "renewablePct = randomInt (rnd 2) 10 70"
      and "trend = randomBetween (rnd 3) (- 0.1) 0.1"
      and "riskFactors = snd (rule_checks rnd)"
      and "addend = randomInt (rnd 4) 0 20"
      and "r = mockGreenwashingCheck clk rnd companyId"
  shows "riskFactors = (if envScore > 80 \<and> emissions > 3000 then 2 else 0)
            + (if envScore > 70 \<and> renewablePct < 20 then 3 else 0)
            + (if trend > 0.05 \<and> envScore > 75 then 3 else 0)
       \<and> 0 \<le> riskFactors \<and> riskFactors \<le> 8
       \<and> (0 \<le> rnd 4 \<and> rnd 4 < 1 \<longrightarrow> 0 \<le> addend \<and> addend < 20)
       \<and> greenwashing_risk_index r = min 100 (riskFactors * 15 + addend)
       \<and> greenwashing_risk_index r \<le> 100
       \<and> (risk_level r = ''high'' \<longleftrightarrow> greenwashing_risk_index r > 60)
       \<and> (risk_level r = ''moderate'' \<longleftrightarrow>
            30 < greenwashing_risk_index r \<and> greenwashing_risk_index r \<le> 60)
       \<and> (risk_level r = ''low'' \<longleftrightarrow> greenwashing_risk_index r \<le> 30)"
proof -
  have rf: "riskFactors = (if envScore > 80 \<and> emissions > 3000 then 2 else 0)
            + (if envScore > 70 \<and> renewablePct < 20 then 3 else 0)
            + (if trend > 0.05 \<and> envScore > 75 then 3 else 0)"
    unfolding assms(1-5) by (rule rule_checks_riskFactors)
  have bounds: "0 \<le> riskFactors \<and> riskFactors \<le> 8"
    unfolding rf by simp
  have addend: "0 \<le> addend \<and> addend < 20" if "0 \<le> rnd 4 \<and> rnd 4 < 1"
    using that unfolding assms(6) randomInt_def randomBetween_def
    by (simp add: floor_less_iff)
  have idx: "greenwashing_risk_index r = min 100 (riskFactors * 15 + addend)"
    unfolding assms(5-7) by (rule mockGreenwashingCheck_index)
  have level: "(risk_level r = ''high'' \<longleftrightarrow> greenwashing_risk_index r > 60)
       \<and> (risk_level r = ''moderate'' \<longleftrightarrow>
            30 < greenwashing_risk_index r \<and> greenwashing_risk_index r \<le> 60)
       \<and> (risk_level r = ''low'' \<longleftrightarrow> greenwashing_risk_index r \<le> 30)"
    unfolding assms(7) mockGreenwashingCheck_level [of clk rnd companyId] by simp
  from idx have "greenwashing_risk_index r \<le> 100" by simp
  with rf bounds addend idx level show ?thesis by blast
qed

text \<open>All three checks fire (environmental score 94, emissions 3965, renewable share 10%,
  trend 0.098) and the addend is 19: \<open>8 * 15 + 19 = 139\<close> is cut to 100, level high.
  With no draw above 0 no check fires and the index is 0, level low.\<close>

theorem risk_index_clamped_witness:
  "snd (rule_checks (draws [99 / 100, 99 / 100, 0, 99 / 100, 99 / 100, 1 / 2])) = 8
 \<and> randomInt (draws [99 / 100, 99 / 100, 0, 99 / 100, 99 / 100, 1 / 2] 4) 0 20 = 19
 \<and> greenwashing_risk_index (mockGreenwashingCheck \<lparr>isoNow = ''2026-01-01T00:00:00.000Z'', isoDateIn30Days = ''2026-01-31''\<rparr>
      (draws [99 / 100, 99 / 100, 0, 99 / 100, 99 / 100, 1 / 2]) ''ACME'') = 100
 \<and> risk_level (mockGreenwashingCheck \<lparr>isoNow = ''2026-01-01T00:00:00.000Z'', isoDateIn30Days = ''2026-01-31''\<rparr>
      (draws [99 / 100, 99 / 100, 0, 99 / 100, 99 / 100, 1 / 2]) ''ACME'') = ''high''
 \<and> greenwashing_risk_index (mockGreenwashingCheck \<lparr>isoNow = ''2026-01-01T00:00:00.000Z'', isoDateIn30Days = ''2026-01-31''\<rparr> (draws []) ''ACME'') = 0
 \<and> risk_level (mockGreenwashingCheck \<lparr>isoNow = ''2026-01-01T00:00:00.000Z'', isoDateIn30Days = ''2026-01-31''\<rparr> (draws []) ''ACME'') = ''low''"
proof -
  have d: "randomInt (draws [99 / 100, 99 / 100, 0, 99 / 100, 99 / 100, 1 / 2] 0) 50 95 = 94"
    "randomInt (draws [99 / 100, 99 / 100, 0, 99 / 100, 99 / 100, 1 / 2] 1) 500 4000 = 3965"
    "randomInt (draws [99 / 100, 99 / 100, 0, 99 / 100, 99 / 100, 1 / 2] 2) 10 70 = 10"
    "randomBetween (draws [99 / 100, 99 / 100, 0, 99 / 100, 99 / 100, 1 / 2] 3) (- 0.1) 0.1 = 0.098"
    "randomInt (draws [99 / 100, 99 / 100, 0, 99 / 100, 99 / 100, 1 / 2] 4) 0 20 = 19"
    by (simp_all add: draws_def randomInt_def randomBetween_def)
  have z: "randomInt (draws [] 0) 50 95 = 50" "randomInt (draws [] 1) 500 4000 = 500"
    "randomInt (draws [] 2) 10 70 = 10" "randomBetween (draws [] 3) (- 0.1) 0.1 = - 0.1"
    "randomInt (draws [] 4) 0 20 = 0"
    by (simp_all add: draws_def randomInt_def randomBetween_def)
  note a = risk_index_clamped [OF refl refl refl refl refl refl refl,
      where rnd = "draws [99 / 100, 99 / 100, 0, 99 / 100, 99 / 100, 1 / 2]"
        and companyId = "''ACME''" and clk = "\<lparr>isoNow = ''2026-01-01T00:00:00.000Z'', isoDateIn30Days = ''2026-01-31''\<rparr>", unfolded d]
  note b = risk_index_clamped [OF refl refl refl refl refl refl refl,
      where rnd = "draws []" and companyId = "''ACME''" and clk = "\<lparr>isoNow = ''2026-01-01T00:00:00.000Z'', isoDateIn30Days = ''2026-01-31''\<rparr>", unfolded z]
  from a have a8: "snd (rule_checks (draws [99 / 100, 99 / 100, 0, 99 / 100, 99 / 100, 1 / 2])) = 8"
    by simp
  from b have b0: "snd (rule_checks (draws [])) = 0"
    by simp
  from a have a100: "greenwashing_risk_index (mockGreenwashingCheck \<lparr>isoNow = ''2026-01-01T00:00:00.000Z'', isoDateIn30Days = ''2026-01-31''\<rparr>
      (draws [99 / 100, 99 / 100, 0, 99 / 100, 99 / 100, 1 / 2]) ''ACME'') = 100"
    unfolding a8 by simp
  from b have b00: "greenwashing_risk_index (mockGreenwashingCheck \<lparr>isoNow = ''2026-01-01T00:00:00.000Z'', isoDateIn30Days = ''2026-01-31''\<rparr> (draws []) ''ACME'') = 0"
    unfolding b0 by simp
  from a have ah: "risk_level (mockGreenwashingCheck \<lparr>isoNow = ''2026-01-01T00:00:00.000Z'', isoDateIn30Days = ''2026-01-31''\<rparr>
      (draws [99 / 100, 99 / 100, 0, 99 / 100, 99 / 100, 1 / 2]) ''ACME'') = ''high''"
    unfolding a100 by simp
  from b have bl: "risk_level (mockGreenwashingCheck \<lparr>isoNow = ''2026-01-01T00:00:00.000Z'', isoDateIn30Days = ''2026-01-31''\<rparr> (draws []) ''ACME'') = ''low''"
    unfolding b00 by simp
  show ?thesis
    unfolding a8 d a100 b00 ah bl by simp
qed

subsection \<open>The recommendations of the greenwashing check\<close>

text \<open>
  Claim C8. The recommendation thresholds are cumulative. For every risk index above 50 the
  recommendations returned by \<^verbatim>\<open>mockGreenwashingCheck\<close> are the two items of the test
  \<^verbatim>\<open>riskIndex > 50\<close> followed by the item of the test \<^verbatim>\<open>riskIndex > 30\<close>; for an index
  above 30 and at most 50 they are that one item; for every index of at most 30 they are
  exactly the two items of the test \<^verbatim>\<open>riskIndex <= 30\<close>.
\<close>

theorem recommendations_cumulative:
  assumes "r = mockGreenwashingCheck clk rnd companyId"
      and "riskIndex = greenwashing_risk_index r"
  shows "(riskIndex > 50 \<longrightarrow> gw_recommendations r =
            [''Request third-party verification of carbon claims'',
             ''Conduct detailed supply chain emissions audit'',
             ''Monitor emissions data more frequently''])
       \<and> (30 < riskIndex \<and> riskIndex \<le> 50 \<longrightarrow> gw_recommendations r =
            [''Monitor emissions data more frequently''])
       \<and> (riskIndex \<le> 30 \<longrightarrow> gw_recommendations r =
            [''Continue current monitoring practices'',
             ''Consider publishing detailed sustainability reports''])"
  unfolding assms(2) assms(1) mockGreenwashingCheck_recommendations [of clk rnd companyId]
    recommendations_for_def
  by simp

text \<open>The index 55 of the specification (one check firing for 3 points, addend 10) gets the
  items of both tests; the index 0 gets the two items of the last test.\<close>

theorem recommendations_cumulative_witness:
  "greenwashing_risk_index (mockGreenwashingCheck \<lparr>isoNow = ''2026-01-01T00:00:00.000Z'', isoDateIn30Days = ''2026-01-31''\<rparr>
      (draws [1 / 2, 0, 0, 0, 1 / 2, 1 / 2]) ''ACME'') = 55
 \<and> gw_recommendations (mockGreenwashingCheck \<lparr>isoNow = ''2026-01-01T00:00:00.000Z'', isoDateIn30Days = ''2026-01-31''\<rparr>
      (draws [1 / 2, 0, 0, 0, 1 / 2, 1 / 2]) ''ACME'') =
      [''Request third-party verification of carbon claims'',
       ''Conduct detailed supply chain emissions audit'',
       ''Monitor emissions data more frequently'']
 \<and> greenwashing_risk_index (mockGreenwashingCheck \<lparr>isoNow = ''2026-01-01T00:00:00.000Z'', isoDateIn30Days = ''2026-01-31''\<rparr> (draws []) ''ACME'') = 0
 \<and> gw_recommendations (mockGreenwashingCheck \<lparr>isoNow = ''2026-01-01T00:00:00.000Z'', isoDateIn30Days = ''2026-01-31''\<rparr> (draws []) ''ACME'') =
      [''Continue current monitoring practices'',
       ''Consider publishing detailed sustainability reports'']"
proof -
  have a: "greenwashing_risk_index (mockGreenwashingCheck \<lparr>isoNow = ''2026-01-01T00:00:00.000Z'', isoDateIn30Days = ''2026-01-31''\<rparr>
      (draws [1 / 2, 0, 0, 0, 1 / 2, 1 / 2]) ''ACME'') = 55"
    unfolding mockGreenwashingCheck_index rule_checks_riskFactors
    by (simp add: draws_def randomInt_def randomBetween_def)
  have b: "greenwashing_risk_index (mockGreenwashingCheck \<lparr>isoNow = ''2026-01-01T00:00:00.000Z'', isoDateIn30Days = ''2026-01-31''\<rparr> (draws []) ''ACME'') = 0"
    unfolding mockGreenwashingCheck_index rule_checks_riskFactors
    by (simp add: draws_def randomInt_def randomBetween_def)
  show ?thesis
    using recommendations_cumulative [OF refl refl,
        where rnd = "draws [1 / 2, 0, 0, 0, 1 / 2, 1 / 2]" and companyId = "''ACME''"
          and clk = "\<lparr>isoNow = ''2026-01-01T00:00:00.000Z'', isoDateIn30Days = ''2026-01-31''\<rparr>"]
      recommendations_cumulative [OF refl refl,
        where rnd = "draws []" and companyId = "''ACME''" and clk = "\<lparr>isoNow = ''2026-01-01T00:00:00.000Z'', isoDateIn30Days = ''2026-01-31''\<rparr>"]
    unfolding a b by simp
qed

subsection \<open>The target return\<close>

text \<open>
  Claim C9. The parameter \<^verbatim>\<open>targetReturn\<close> of \<^verbatim>\<open>mockPortfolioOptimization\<close> has no
  influence on the result: for every capital and risk tier, two calls that differ in the
  target return only, with the same draws and the same reading of the clock, give the same
  response (or fail alike).
\<close>

theorem target_return_unused:
  "mockPortfolioOptimization clk rnd capital riskTolerance targetReturn
     = mockPortfolioOptimization clk rnd capital riskTolerance targetReturn'"
  by (simp add: mockPortfolioOptimization_def)

text \<open>Target returns of 5% and 20% on a conservative request for 10000.\<close>

theorem target_return_unused_witness:
  "mockPortfolioOptimization \<lparr>isoNow = ''2026-01-01T00:00:00.000Z'', isoDateIn30Days = ''2026-01-31''\<rparr> (draws [3 / 5, 0, 7 / 10, 0]) 10000 ''conservative'' 0.05
     = mockPortfolioOptimization \<lparr>isoNow = ''2026-01-01T00:00:00.000Z'', isoDateIn30Days = ''2026-01-31''\<rparr> (draws [3 / 5, 0, 7 / 10, 0]) 10000 ''conservative'' 0.20"
  by (rule target_return_unused)

subsection \<open>Risk tiers outside the three keys\<close>

text \<open>
  Claim C10. \<^verbatim>\<open>mockPortfolioOptimization\<close> returns a response on the three documented risk
  tiers only. For every \<^verbatim>\<open>riskTolerance\<close> that is none of \<^verbatim>\<open>conservative\<close>,
  \<^verbatim>\<open>moderate\<close>, \<^verbatim>\<open>aggressive\<close>, the lookup in the asset tables gives no table,
  \<^verbatim>\<open>generateAssets\<close> fails with a \<^verbatim>\<open>TypeError\<close> and so does the whole call; for each of the
  three keys the lookup gives a table and the call returns a response.
\<close>

theorem portfolio_total_on_tiers:
  "(riskTolerance \<notin> {''conservative'', ''moderate'', ''aggressive''} \<longrightarrow>
      assetSets isGreen riskTolerance = None
    \<and> generateAssets rnd capital riskTolerance isGreen = Inl TypeError
    \<and> mockPortfolioOptimization clk rnd capital riskTolerance targetReturn = Inl TypeError)
 \<and> (riskTolerance \<in> {''conservative'', ''moderate'', ''aggressive''} \<longrightarrow>
      (\<exists>table. assetSets isGreen riskTolerance = Some table)
    \<and> (\<exists>as. generateAssets rnd capital riskTolerance isGreen = Inr as)
    \<and> (\<exists>p. mockPortfolioOptimization clk rnd capital riskTolerance targetReturn = Inr p))"
proof -
  have out: "assetSets isGreen riskTolerance = None
    \<and> generateAssets rnd capital riskTolerance isGreen = Inl TypeError
    \<and> mockPortfolioOptimization clk rnd capital riskTolerance targetReturn = Inl TypeError"
    if "riskTolerance \<notin> {''conservative'', ''moderate'', ''aggressive''}"
  proof -
    from that have "generateAssets rnd capital riskTolerance False = Inl TypeError"
      by (simp only: generateAssets_TypeError simp_thms)
    then have "mockPortfolioOptimization clk rnd capital riskTolerance targetReturn = Inl TypeError"
      by (simp add: mockPortfolioOptimization_def)
    with that show ?thesis
      by (simp add: generateAssets_TypeError assetSets_None)
  qed
  have inn: "(\<exists>table. assetSets isGreen riskTolerance = Some table)
    \<and> (\<exists>as. generateAssets rnd capital riskTolerance isGreen = Inr as)
    \<and> (\<exists>p. mockPortfolioOptimization clk rnd capital riskTolerance targetReturn = Inr p)"
    if "riskTolerance \<in> {''conservative'', ''moderate'', ''aggressive''}"
  proof -
    have ok: "\<exists>as. generateAssets rnd capital riskTolerance isGreen = Inr as"
      using that by (rule generateAssets_Inr)
    have "\<exists>p. mockPortfolioOptimization clk rnd capital riskTolerance targetReturn = Inr p"
      using that by (rule mockPortfolioOptimization_Inr)
    moreover from that have "\<exists>table. assetSets isGreen riskTolerance = Some table"
      using assetSets_None [of isGreen riskTolerance] by auto
    ultimately show ?thesis using ok by blast
  qed
  from out inn show ?thesis by blast
qed

text \<open>The keys \<^verbatim>\<open>balanced\<close> and \<^verbatim>\<open>constructor\<close> fail; the key \<^verbatim>\<open>aggressive\<close> returns a
  response.\<close>

theorem portfolio_total_on_tiers_witness:
  "mockPortfolioOptimization \<lparr>isoNow = ''2026-01-01T00:00:00.000Z'', isoDateIn30Days = ''2026-01-31''\<rparr> (draws [3 / 5, 0, 7 / 10, 0]) 10000 ''balanced'' 0.08 = Inl TypeError
 \<and> mockPortfolioOptimization \<lparr>isoNow = ''2026-01-01T00:00:00.000Z'', isoDateIn30Days = ''2026-01-31''\<rparr> (draws [3 / 5, 0, 7 / 10, 0]) 10000 ''constructor'' 0.08 = Inl TypeError
 \<and> (\<exists>p. mockPortfolioOptimization \<lparr>isoNow = ''2026-01-01T00:00:00.000Z'', isoDateIn30Days = ''2026-01-31''\<rparr> (draws [3 / 5, 0, 7 / 10, 0]) 10000 ''aggressive'' 0.08 = Inr p)"
proof -
  have k: "''balanced'' \<notin> {''conservative'', ''moderate'', ''aggressive''}"
    "''constructor'' \<notin> {''conservative'', ''moderate'', ''aggressive''}"
    "''aggressive'' \<in> {''conservative'', ''moderate'', ''aggressive''}"
    by simp_all
  have "mockPortfolioOptimization \<lparr>isoNow = ''2026-01-01T00:00:00.000Z'', isoDateIn30Days = ''2026-01-31''\<rparr> (draws [3 / 5, 0, 7 / 10, 0]) 10000 ''balanced'' 0.08
      = Inl TypeError"
    using k(1) portfolio_total_on_tiers [where riskTolerance = "''balanced''"]
    by simp
  moreover have "mockPortfolioOptimization \<lparr>isoNow = ''2026-01-01T00:00:00.000Z'', isoDateIn30Days = ''2026-01-31''\<rparr> (draws [3 / 5, 0, 7 / 10, 0]) 10000 ''constructor'' 0.08
      = Inl TypeError"
    using k(2) portfolio_total_on_tiers [where riskTolerance = "''constructor''"]
    by simp
  moreover have "\<exists>p. mockPortfolioOptimization \<lparr>isoNow = ''2026-01-01T00:00:00.000Z'', isoDateIn30Days = ''2026-01-31''\<rparr> (draws [3 / 5, 0, 7 / 10, 0]) 10000 ''aggressive'' 0.08
      = Inr p"
    using k(3) portfolio_total_on_tiers [where riskTolerance = "''aggressive''"]
    by simp
  ultimately show ?thesis by (intro conjI)
qed

end
